theory Spec2Isabelle
  imports Complex_Main
begin

section \<open>Subtitle translator: the job loop and its controller\<close>

text \<open>
  A shallow embedding of \<^verbatim>\<open>Subtitle_Auto_Translator.py\<close>: the class \<^verbatim>\<open>Translator\<close> with
  its methods \<^verbatim>\<open>translate_srt\<close>, \<^verbatim>\<open>start_translation\<close>, \<^verbatim>\<open>stop_translation\<close> and
  \<^verbatim>\<open>get_quota\<close>.

  A Python \<^verbatim>\<open>str\<close> is a \<open>string\<close> whose characters each stand for one code point (so
  \<open>length\<close> is Python's \<^verbatim>\<open>len\<close>); only code points below 256 are represented.
  Everything the methods do besides updating the fields of the \<^verbatim>\<open>Translator\<close> object
  (calling the remote service, sleeping, calling the four callbacks, logging, showing a
  message box, saving the file) is recorded, in order, in a list of events.

  Inside the \<^verbatim>\<open>try\<close> statement of the loop every statement that can raise is followed:
  the request, the status check, the decoding, \<^verbatim>\<open>len\<close> of the stored text and the two
  callbacks called there; what they raise is an \<^verbatim>\<open>Exception\<close>, so one of the three
  \<^verbatim>\<open>except\<close> clauses takes it. The status and error callbacks, which the source calls
  outside any \<^verbatim>\<open>try\<close> statement, and \<^verbatim>\<open>subtitles.save\<close> are taken to return normally.
\<close>

subsection \<open>Constants of the module\<close>

definition STATUS_IDLE :: string where
  "STATUS_IDLE = ''Status: Idle''"

definition STATUS_TRANSLATION_COMPLETED :: string where
  "STATUS_TRANSLATION_COMPLETED = ''Translation completed''"

definition SLEEP_TIME :: rat where
  "SLEEP_TIME = 1 / 10"

subsection \<open>Strings: \<^verbatim>\<open>str.strip\<close>, \<^verbatim>\<open>str.lower\<close>, \<^verbatim>\<open>os.path.splitext\<close>\<close>

text \<open>Python's \<^verbatim>\<open>str.isspace\<close> on one code point below 256.\<close>

definition isspace :: "char \<Rightarrow> bool" where
  "isspace c =
     (let n = (of_char c :: nat)
      in (9 \<le> n \<and> n \<le> 13) \<or> (28 \<le> n \<and> n \<le> 32) \<or> n = 133 \<or> n = 160)"

definition strip :: "string \<Rightarrow> string" where
  "strip s = rev (dropWhile isspace (rev (dropWhile isspace s)))"

text \<open>Python's \<^verbatim>\<open>str.lower\<close> on one code point below 256.\<close>

definition lower_char :: "char \<Rightarrow> char" where
  "lower_char c =
     (let n = (of_char c :: nat)
      in if (65 \<le> n \<and> n \<le> 90) \<or> (192 \<le> n \<and> n \<le> 222 \<and> n \<noteq> 215)
         then char_of (n + 32) else c)"

definition lower :: "string \<Rightarrow> string" where
  "lower s = map lower_char s"

text \<open>
  The second component of \<^verbatim>\<open>os.path.splitext(p)\<close> (POSIX flavour): the extension starts
  at the last dot of the last path component, leading dots of that component not counting.
\<close>

definition basename :: "string \<Rightarrow> string" where
  "basename p = rev (takeWhile (\<lambda>c. c \<noteq> CHR ''/'') (rev p))"

definition splitext_ext :: "string \<Rightarrow> string" where
  "splitext_ext p =
     (let b = dropWhile (\<lambda>c. c = CHR ''.'') (basename p)
      in if CHR ''.'' \<in> set b
         then CHR ''.'' # rev (takeWhile (\<lambda>c. c \<noteq> CHR ''.'') (rev b))
         else [])"

subsection \<open>Data\<close>

text \<open>
  The values \<^verbatim>\<open>json\<close> decoding yields, a \<^verbatim>\<open>str\<close> among them. The attribute \<^verbatim>\<open>text\<close> of an
  entry is a \<^verbatim>\<open>str\<close> when the file has been parsed, and whatever value the loop has
  assigned to it afterwards.
\<close>

datatype pyvalue =
    Str string
  | PyNone
  | PyBool bool
  | PyNumber rat
  | PyList "pyvalue list"
  | PyDict "(string \<times> pyvalue) list"

text \<open>Python's \<^verbatim>\<open>len\<close>: \<open>None\<close> where it raises \<^verbatim>\<open>TypeError\<close>. (A decoded dictionary
  has each key once.)\<close>

fun len :: "pyvalue \<Rightarrow> nat option" where
  "len (Str s) = Some (length s)"
| "len (PyList vs) = Some (length vs)"
| "len (PyDict kvs) = Some (length kvs)"
| "len PyNone = None"
| "len (PyBool b) = None"
| "len (PyNumber n) = None"

text \<open>One item of the subtitle file: position, timing span (milliseconds), text.\<close>

record subtitle =
  index :: nat
  start :: nat
  end' :: nat
  text' :: pyvalue

text \<open>The form fields of one POST to \<^verbatim>\<open>DEEPL_API_URL\<close>.\<close>

record request =
  auth_key :: "string option"
  req_text :: pyvalue
  source_lang :: string
  target_lang :: string

text \<open>
  The three \<^verbatim>\<open>except\<close> clauses of the loop, in the order the source tries them:
  \<^verbatim>\<open>HTTPError\<close> (raised by \<^verbatim>\<open>raise_for_status\<close>), any other \<^verbatim>\<open>RequestException\<close>
  (raised by \<^verbatim>\<open>requests.post\<close>), any other \<^verbatim>\<open>Exception\<close> (raised while decoding the body
  or subscripting it, by \<^verbatim>\<open>len\<close>, or by a callback).
\<close>

datatype failure = HTTPError | RequestException | OtherException

text \<open>
  What the statements of the \<^verbatim>\<open>try\<close> block up to
  \<^verbatim>\<open>translation['translations'][0]['text']\<close> do for one entry: they raise, or they yield
  the value found there, which need not be a \<^verbatim>\<open>str\<close>.
\<close>

datatype attempt = Raises failure | Returns pyvalue

text \<open>The arguments of one submitted call of \<^verbatim>\<open>translate_srt\<close>.\<close>

record job =
  job_file_path :: string
  job_output_path :: string
  job_src_lang :: string
  job_dest_lang :: string

text \<open>
  The \<^verbatim>\<open>ThreadPoolExecutor\<close>: a submitted job starts at once while fewer than
  \<open>max_workers\<close> jobs are running, and waits otherwise. A future is the position of its
  job in the list of submitted jobs. The end of a job is not followed here: the
  properties below look at the executor only when jobs are submitted or cancelled.
\<close>

datatype future_state = Pending | Running | Cancelled

record executor =
  max_workers :: nat
  futures :: "(job \<times> future_state) list"

definition ThreadPoolExecutor :: "nat \<Rightarrow> executor" where
  "ThreadPoolExecutor n = \<lparr>max_workers = n, futures = []\<rparr>"

definition running_jobs :: "executor \<Rightarrow> job list" where
  "running_jobs ex = map fst (filter (\<lambda>jf. snd jf = Running) (futures ex))"

definition submit :: "executor \<Rightarrow> job \<Rightarrow> executor \<times> nat" where
  "submit ex j =
     (ex\<lparr>futures := futures ex @
           [(j, if length (running_jobs ex) < max_workers ex then Running else Pending)]\<rparr>,
      length (futures ex))"

text \<open>\<^verbatim>\<open>Future.cancel()\<close>: only a job that has not started is cancelled.\<close>

definition cancel :: "executor \<Rightarrow> nat \<Rightarrow> executor" where
  "cancel ex fut =
     (if fut < length (futures ex) \<and> snd (futures ex ! fut) = Pending
      then ex\<lparr>futures := (futures ex)[fut := (fst (futures ex ! fut), Cancelled)]\<rparr>
      else ex)"

text \<open>The fields of a \<^verbatim>\<open>Translator\<close> object (the configuration parser apart).\<close>

record translator =
  should_stop :: bool
  translated_count :: nat
  deepl_api_key :: "string option"
  executor :: executor
  quota :: nat
  used_quota :: nat
  current_translation :: "nat option"

datatype log_record =
    TotalSubtitles nat
  | ErrorOccurred failure
  | FileSaved string
  | TranslationCancelled

datatype event =
    Post request
  | Sleep rat
  | QuotaCallback nat
  | ProgressCallback rat
  | StatusCallback string
  | ErrorCallback string
  | ShowError string string
  | Log log_record
  | Save string "subtitle list"

text \<open>
  What a run of \<^verbatim>\<open>translate_srt\<close> meets outside the object: the file system
  (\<^verbatim>\<open>pysrt.open\<close>, \<open>None\<close> when it raises), the remote service (the outcome of the
  \<open>i\<close>-th entry's request), the user (\<open>stop_pressed i\<close>: \<^verbatim>\<open>stop_translation\<close> is
  called from the other thread just before the loop's \<open>i\<close>-th check of the stop flag)
  and the two callbacks the loop calls for the \<open>i\<close>-th entry (\<open>None\<close>: the call returns;
  \<open>Some err\<close>: it raises, and the \<^verbatim>\<open>except\<close> clause \<open>err\<close> takes the exception).
\<close>

record env =
  pysrt_open :: "string \<Rightarrow> subtitle list option"
  deepl :: "nat \<Rightarrow> request \<Rightarrow> attempt"
  stop_pressed :: "nat \<Rightarrow> bool"
  quota_callback_raises :: "nat \<Rightarrow> failure option"
  progress_callback_raises :: "nat \<Rightarrow> failure option"

subsection \<open>The methods of \<^verbatim>\<open>Translator\<close>\<close>

text \<open>
  The state \<^verbatim>\<open>__init__\<close> leaves, given the credential and the thread count it has read
  from the configuration file, the environment or the dialogs.
\<close>

definition Translator_init :: "string option \<Rightarrow> nat \<Rightarrow> translator" where
  "Translator_init key num_threads =
     \<lparr>should_stop = False, translated_count = 0, deepl_api_key = key,
      executor = ThreadPoolExecutor num_threads,
      quota = 500000, used_quota = 0, current_translation = None\<rparr>"

definition get_quota :: "translator \<Rightarrow> nat \<times> nat" where
  "get_quota s = (quota s, used_quota s)"

definition stop_translation :: "translator \<Rightarrow> translator \<times> event list" where
  "stop_translation s =
     (let s1 = s\<lparr>should_stop := True\<rparr>;
          s2 = (case current_translation s1 of
                  Some fut \<Rightarrow> s1\<lparr>executor := cancel (executor s1) fut\<rparr>
                | None \<Rightarrow> s1)
      in (s2, [Log TranslationCancelled]))"

text \<open>\<^verbatim>\<open>not self.deepl_api_key or len(self.deepl_api_key.strip()) == 0\<close>\<close>

definition no_api_key :: "string option \<Rightarrow> bool" where
  "no_api_key key =
     (case key of None \<Rightarrow> True | Some k \<Rightarrow> k = [] \<or> length (strip k) = 0)"

definition start_translation ::
  "string \<Rightarrow> string \<Rightarrow> string \<Rightarrow> string \<Rightarrow> translator \<Rightarrow> translator \<times> event list" where
  "start_translation file_path output_path src_lang dest_lang s =
     (if no_api_key (deepl_api_key s)
      then (s, [ErrorCallback ''No API key found. Please provide a valid DeepL API Key.''])
      else
        let s1 = s\<lparr>should_stop := False\<rparr>
        in if lower (splitext_ext file_path) = ''.srt''
           then
             let (ex, fut) =
                   submit (executor s1)
                     \<lparr>job_file_path = file_path, job_output_path = output_path,
                      job_src_lang = src_lang, job_dest_lang = dest_lang\<rparr>
             in (s1\<lparr>executor := ex, current_translation := Some fut\<rparr>,
                 [StatusCallback ''Translation started''])
           else (s1, [ShowError ''Error''
                  (''Invalid file type. Only .srt files are supported. You can convert your '' @
                   ''non-SRT file to SRT using this online tool: '' @
                   ''https://www.veed.io/subtitle-tools/edit?locale=en&source=%2Ftools'' @
                   ''%2Fsubtitle-converter%2Fass-to-srt or use your own converter.'')]))"

text \<open>The \<^verbatim>\<open>data\<close> dictionary of the POST for one entry.\<close>

definition form_data :: "string option \<Rightarrow> string \<Rightarrow> string \<Rightarrow> subtitle \<Rightarrow> request" where
  "form_data key src_lang dest_lang sub =
     \<lparr>auth_key = key, req_text = text' sub, source_lang = src_lang, target_lang = dest_lang\<rparr>"

text \<open>
  The body of the loop for the \<open>i\<close>-th entry once the stop flag has been found clear: the
  \<^verbatim>\<open>try\<close> statement with its three \<^verbatim>\<open>except\<close> clauses (each logs and \<^verbatim>\<open>continue\<close>s,
  which skips the \<^verbatim>\<open>time.sleep\<close> after the \<^verbatim>\<open>try\<close> statement) and, on the normal path,
  the \<^verbatim>\<open>time.sleep(SLEEP_TIME)\<close> that follows. The text is assigned before \<^verbatim>\<open>len\<close> is
  taken of it, the counters are updated before the callbacks are called, and an exception
  raised at any of these statements leaves the \<^verbatim>\<open>try\<close> block there.
\<close>

definition attempt_entry ::
  "env \<Rightarrow> string \<Rightarrow> string \<Rightarrow> nat \<Rightarrow> nat \<Rightarrow> subtitle \<Rightarrow> translator
     \<Rightarrow> translator \<times> subtitle \<times> event list" where
  "attempt_entry e src_lang dest_lang total_subtitles i sub s =
     (let req = form_data (deepl_api_key s) src_lang dest_lang sub
      in case deepl e i req of
           Raises err \<Rightarrow> (s, sub, [Post req, Log (ErrorOccurred err)])
         | Returns v \<Rightarrow>
             let sub' = sub\<lparr>text' := v\<rparr>
             in case len (text' sub') of
                  None \<Rightarrow> (s, sub', [Post req, Log (ErrorOccurred OtherException)])
                | Some n \<Rightarrow>
                    let s1 = s\<lparr>used_quota := used_quota s + n\<rparr>;
                        s2 = s1\<lparr>translated_count := translated_count s1 + 1\<rparr>
                    in case quota_callback_raises e i of
                         Some err \<Rightarrow>
                           (s2, sub',
                            [Post req, QuotaCallback (used_quota s2), Log (ErrorOccurred err)])
                       | None \<Rightarrow>
                           (case progress_callback_raises e i of
                              Some err \<Rightarrow>
                                (s2, sub',
                                 [Post req, QuotaCallback (used_quota s2),
                                  ProgressCallback
                                    (of_nat (translated_count s2) / of_nat total_subtitles),
                                  Log (ErrorOccurred err)])
                            | None \<Rightarrow>
                                (s2, sub',
                                 [Post req, QuotaCallback (used_quota s2),
                                  ProgressCallback
                                    (of_nat (translated_count s2) / of_nat total_subtitles),
                                  Sleep SLEEP_TIME])))"

text \<open>What the other thread does before the loop's \<open>i\<close>-th check of the stop flag.\<close>

definition other_thread :: "env \<Rightarrow> nat \<Rightarrow> translator \<Rightarrow> translator \<times> event list" where
  "other_thread e i s = (if stop_pressed e i then stop_translation s else (s, []))"

text \<open>
  \<^verbatim>\<open>for i, subtitle in enumerate(subtitles, start=1)\<close> from entry \<open>i\<close> on. The result is:
  whether the loop ran to its end (\<open>False\<close>: it left through \<^verbatim>\<open>return\<close>), the object's
  state, the entries as they are in memory, and the events.
\<close>

fun translate_loop ::
  "env \<Rightarrow> string \<Rightarrow> string \<Rightarrow> nat \<Rightarrow> nat \<Rightarrow> subtitle list \<Rightarrow> translator
     \<Rightarrow> bool \<times> translator \<times> subtitle list \<times> event list" where
  "translate_loop e src_lang dest_lang total_subtitles i [] s = (True, s, [], [])"
| "translate_loop e src_lang dest_lang total_subtitles i (sub # subs) s =
     (let (s1, ev1) = other_thread e i s
      in if should_stop s1 then (False, s1, sub # subs, ev1)
         else
           let (s2, sub', ev2) = attempt_entry e src_lang dest_lang total_subtitles i sub s1;
               (finished, s3, subs', ev3) =
                 translate_loop e src_lang dest_lang total_subtitles (Suc i) subs s2
           in (finished, s3, sub' # subs', ev1 @ ev2 @ ev3))"

text \<open>How a call of \<^verbatim>\<open>translate_srt\<close> ends: it returns, or an exception leaves it.\<close>

datatype ending = Returned | Escaped

record run =
  run_ending :: ending
  run_state :: translator
  run_subtitles :: "subtitle list"
  run_events :: "event list"

text \<open>
  \<^verbatim>\<open>translate_srt\<close>. \<open>run_subtitles\<close> is the local variable \<^verbatim>\<open>subtitles\<close> when the
  call ends (empty when the file was never opened). Saving is taken to succeed.
\<close>

definition translate_srt ::
  "env \<Rightarrow> string \<Rightarrow> string \<Rightarrow> string \<Rightarrow> string \<Rightarrow> translator \<Rightarrow> run" where
  "translate_srt e file_path output_path src_lang dest_lang s =
     (if lower (splitext_ext file_path) \<noteq> ''.srt''
      then \<lparr>run_ending = Returned, run_state = s, run_subtitles = [],
            run_events = [ShowError ''Error''
              (''The file '' @ file_path @
               '' is not an SRT file. Please convert it to SRT format.'')]\<rparr>
      else
        case pysrt_open e file_path of
          None \<Rightarrow> \<lparr>run_ending = Escaped, run_state = s, run_subtitles = [], run_events = []\<rparr>
        | Some subtitles \<Rightarrow>
            let total_subtitles = length subtitles;
                s0 = s\<lparr>translated_count := 0\<rparr>;
                (finished, s1, subtitles', evs) =
                  translate_loop e src_lang dest_lang total_subtitles 1 subtitles s0
            in if finished
               then \<lparr>run_ending = Returned, run_state = s1, run_subtitles = subtitles',
                     run_events = [Log (TotalSubtitles total_subtitles)] @ evs @
                       [Save output_path subtitles', Log (FileSaved output_path),
                        StatusCallback STATUS_TRANSLATION_COMPLETED]\<rparr>
               else \<lparr>run_ending = Returned, run_state = s1, run_subtitles = subtitles',
                     run_events = [Log (TotalSubtitles total_subtitles)] @ evs\<rparr>)"

subsection \<open>Reading a run\<close>

text \<open>The requests posted, the progress fractions reported, the files saved, the errors
  reported through \<^verbatim>\<open>error_callback\<close> and the statuses reported, each in order.\<close>

fun posts :: "event list \<Rightarrow> request list" where
  "posts [] = []"
| "posts (Post r # evs) = r # posts evs"
| "posts (_ # evs) = posts evs"

fun progress_calls :: "event list \<Rightarrow> rat list" where
  "progress_calls [] = []"
| "progress_calls (ProgressCallback f # evs) = f # progress_calls evs"
| "progress_calls (_ # evs) = progress_calls evs"

fun saves :: "event list \<Rightarrow> (string \<times> subtitle list) list" where
  "saves [] = []"
| "saves (Save p d # evs) = (p, d) # saves evs"
| "saves (_ # evs) = saves evs"

fun error_calls :: "event list \<Rightarrow> string list" where
  "error_calls [] = []"
| "error_calls (ErrorCallback m # evs) = m # error_calls evs"
| "error_calls (_ # evs) = error_calls evs"

fun status_calls :: "event list \<Rightarrow> string list" where
  "status_calls [] = []"
| "status_calls (StatusCallback m # evs) = m # status_calls evs"
| "status_calls (_ # evs) = status_calls evs"

text \<open>
  The outcomes of the requests for the entries \<open>subs\<close>, the first of them being the
  \<open>i\<close>-th of the document: what the remote service answers to each entry's own text.
\<close>

fun outcomes ::
  "env \<Rightarrow> string option \<Rightarrow> string \<Rightarrow> string \<Rightarrow> nat \<Rightarrow> subtitle list \<Rightarrow> attempt list" where
  "outcomes e key src_lang dest_lang i [] = []"
| "outcomes e key src_lang dest_lang i (sub # subs) =
     deepl e i (form_data key src_lang dest_lang sub) #
     outcomes e key src_lang dest_lang (Suc i) subs"

text \<open>The translation of an entry has succeeded when a value was found and stored and
  \<^verbatim>\<open>len\<close> of it was taken: the statements up to the update of the two counters are
  done.\<close>

fun succeeded :: "attempt \<Rightarrow> bool" where
  "succeeded (Returns v) = (len v \<noteq> None)"
| "succeeded (Raises err) = False"

text \<open>An entry after its attempt, and the characters the attempt adds to the quota.\<close>

fun written :: "attempt \<Rightarrow> subtitle \<Rightarrow> subtitle" where
  "written (Returns v) sub = sub\<lparr>text' := v\<rparr>"
| "written (Raises err) sub = sub"

definition size_of :: "pyvalue \<Rightarrow> nat" where
  "size_of v = (case len v of Some n \<Rightarrow> n | None \<Rightarrow> 0)"

fun characters :: "attempt \<Rightarrow> nat" where
  "characters (Returns v) = size_of v"
| "characters (Raises err) = 0"

text \<open>The sum, over the entries whose attempt succeeded, of the length of the text the
  entry now holds.\<close>

definition translated_characters :: "attempt list \<Rightarrow> subtitle list \<Rightarrow> nat" where
  "translated_characters os subs =
     sum_list (map2 (\<lambda>a sub. if succeeded a then size_of (text' sub) else 0) os subs)"

text \<open>
  The numbers of the entries whose translation succeeded, the first outcome of \<open>os\<close>
  being that of entry \<open>i\<close>. The progress callback is reached for those of them whose
  quota callback returns; the fraction it then gets is the count of successes so far
  over the number of entries. A pair \<open>(k, n)\<close> stands for the success number \<open>k + 1\<close>,
  which is entry \<open>n\<close>.
\<close>

definition success_numbers :: "nat \<Rightarrow> attempt list \<Rightarrow> nat list" where
  "success_numbers i os = map fst (filter (\<lambda>na. succeeded (snd na)) (enumerate i os))"

definition reaches_progress :: "env \<Rightarrow> nat \<times> nat \<Rightarrow> bool" where
  "reaches_progress e kn = (quota_callback_raises e (snd kn) = None)"

definition fraction :: "nat \<Rightarrow> nat \<times> nat \<Rightarrow> rat" where
  "fraction total_subtitles kn = of_nat (Suc (fst kn)) / of_nat total_subtitles"

definition progress_fractions :: "env \<Rightarrow> nat \<Rightarrow> nat \<Rightarrow> nat list \<Rightarrow> rat list" where
  "progress_fractions e total_subtitles c ns =
     map (fraction total_subtitles) (filter (reaches_progress e) (enumerate c ns))"

text \<open>A run is completed when it has reported \<^verbatim>\<open>STATUS_TRANSLATION_COMPLETED\<close>, which
  is the last thing \<^verbatim>\<open>translate_srt\<close> does after a loop that was not left early.\<close>

definition completed :: "run \<Rightarrow> bool" where
  "completed r = (status_calls (run_events r) = [STATUS_TRANSLATION_COMPLETED])"

text \<open>Two states of the object that differ at most in \<open>quota\<close> and \<open>used_quota\<close>, and an
  event with the number reported to \<^verbatim>\<open>quota_callback\<close> blanked.\<close>

definition same_but_quota :: "translator \<Rightarrow> translator \<Rightarrow> bool" where
  "same_but_quota s t =
     (should_stop s = should_stop t \<and> translated_count s = translated_count t \<and>
      deepl_api_key s = deepl_api_key t \<and> executor s = executor t \<and>
      current_translation s = current_translation t)"

fun forget_quota :: "event \<Rightarrow> event" where
  "forget_quota (QuotaCallback n) = QuotaCallback 0"
| "forget_quota ev = ev"

text \<open>
  The states a \<^verbatim>\<open>Translator\<close> object can be in: the one \<^verbatim>\<open>__init__\<close> leaves, and those
  its methods lead to. The handlers of the window assign \<open>deepl_api_key\<close> (update and
  delete the key) and \<open>executor\<close> (set the thread count) directly.
\<close>

inductive reachable :: "translator \<Rightarrow> bool" where
  init: "reachable (Translator_init key num_threads)"
| start: "reachable s \<Longrightarrow>
    reachable (fst (start_translation file_path output_path src_lang dest_lang s))"
| stop: "reachable s \<Longrightarrow> reachable (fst (stop_translation s))"
| run: "reachable s \<Longrightarrow>
    reachable (run_state (translate_srt e file_path output_path src_lang dest_lang s))"
| assign_key: "reachable s \<Longrightarrow> reachable (s\<lparr>deepl_api_key := key\<rparr>)"
| assign_executor: "reachable s \<Longrightarrow> reachable (s\<lparr>executor := ThreadPoolExecutor n\<rparr>)"

subsection \<open>Example runs\<close>

definition doc3 :: "subtitle list" where
  "doc3 = [\<lparr>index = 1, start = 0, end' = 1000, text' = Str ''one''\<rparr>,
           \<lparr>index = 2, start = 1000, end' = 2000, text' = Str ''two''\<rparr>,
           \<lparr>index = 3, start = 2000, end' = 3000, text' = Str ''three''\<rparr>]"

text \<open>A fresh object with a credential and four worker threads.\<close>

definition fresh :: translator where
  "fresh = Translator_init (Some ''secret'') 4"

text \<open>The same object once the whole quota has been used.\<close>

definition over_limit :: translator where
  "over_limit = fresh\<lparr>used_quota := 500000\<rparr>"

text \<open>The job that translates \<^verbatim>\<open>film.srt\<close> from English to German.\<close>

definition film_job :: job where
  "film_job = \<lparr>job_file_path = ''film.srt'', job_output_path = ''film.de.srt'',
     job_src_lang = ''EN'', job_dest_lang = ''DE''\<rparr>"

text \<open>A remote service that answers a text with the text marked as German.\<close>

fun german :: "pyvalue \<Rightarrow> pyvalue" where
  "german (Str t) = Str (''de:'' @ t)"
| "german v = v"

text \<open>The remote service answers every entry but the second, whose response makes
  \<^verbatim>\<open>raise_for_status\<close> raise; nobody presses stop, the callbacks return.\<close>

definition env_fail2 :: env where
  "env_fail2 =
     \<lparr>pysrt_open = (\<lambda>p. Some doc3),
      deepl = (\<lambda>i r. if i = 2 then Raises HTTPError else Returns (german (req_text r))),
      stop_pressed = (\<lambda>i. False),
      quota_callback_raises = (\<lambda>i. None),
      progress_callback_raises = (\<lambda>i. None)\<rparr>"

text \<open>The remote service answers every entry; nobody presses stop, the callbacks return.\<close>

definition env_ok :: env where
  "env_ok =
     \<lparr>pysrt_open = (\<lambda>p. Some doc3),
      deepl = (\<lambda>i r. Returns (german (req_text r))),
      stop_pressed = (\<lambda>i. False),
      quota_callback_raises = (\<lambda>i. None),
      progress_callback_raises = (\<lambda>i. None)\<rparr>"

text \<open>The remote service answers every entry; stop is pressed after the first entry.\<close>

definition env_stop2 :: env where
  "env_stop2 =
     \<lparr>pysrt_open = (\<lambda>p. Some doc3),
      deepl = (\<lambda>i r. Returns (german (req_text r))),
      stop_pressed = (\<lambda>i. i = 2),
      quota_callback_raises = (\<lambda>i. None),
      progress_callback_raises = (\<lambda>i. None)\<rparr>"

text \<open>The file holds no entry.\<close>

definition env_empty :: env where
  "env_empty =
     \<lparr>pysrt_open = (\<lambda>p. Some []),
      deepl = (\<lambda>i r. Returns (german (req_text r))),
      stop_pressed = (\<lambda>i. False),
      quota_callback_raises = (\<lambda>i. None),
      progress_callback_raises = (\<lambda>i. None)\<rparr>"

text \<open>The remote service answers every entry, the second with a body whose text is
  \<^verbatim>\<open>null\<close>; nobody presses stop, the callbacks return.\<close>

definition env_null2 :: env where
  "env_null2 =
     \<lparr>pysrt_open = (\<lambda>p. Some doc3),
      deepl = (\<lambda>i r. if i = 2 then Returns PyNone else Returns (german (req_text r))),
      stop_pressed = (\<lambda>i. False),
      quota_callback_raises = (\<lambda>i. None),
      progress_callback_raises = (\<lambda>i. None)\<rparr>"

text \<open>The remote service answers every entry; the quota callback raises at the second
  entry; nobody presses stop.\<close>

definition env_quota2 :: env where
  "env_quota2 =
     \<lparr>pysrt_open = (\<lambda>p. Some doc3),
      deepl = (\<lambda>i r. Returns (german (req_text r))),
      stop_pressed = (\<lambda>i. False),
      quota_callback_raises = (\<lambda>i. if i = 2 then Some OtherException else None),
      progress_callback_raises = (\<lambda>i. None)\<rparr>"

section \<open>Properties\<close>

subsection \<open>Auxiliary facts\<close>

lemma posts_append: "posts (xs @ ys) = posts xs @ posts ys"
  by (induction xs rule: posts.induct) simp_all
lemma progress_calls_append: "progress_calls (xs @ ys) = progress_calls xs @ progress_calls ys"
  by (induction xs rule: progress_calls.induct) simp_all
lemma saves_append: "saves (xs @ ys) = saves xs @ saves ys"
  by (induction xs rule: saves.induct) simp_all
lemma error_calls_append: "error_calls (xs @ ys) = error_calls xs @ error_calls ys"
  by (induction xs rule: error_calls.induct) simp_all
lemma status_calls_append: "status_calls (xs @ ys) = status_calls xs @ status_calls ys"
  by (induction xs rule: status_calls.induct) simp_all

lemma length_outcomes: "length (outcomes e key src dst i subs) = length subs"
  by (induction subs arbitrary: i) simp_all

lemma other_thread_quiet: "\<not> stop_pressed e i \<Longrightarrow> other_thread e i s = (s, [])"
  by (simp add: other_thread_def)

lemma other_thread_stops:
  "stop_pressed e i \<Longrightarrow> other_thread e i s = (s1, ev1) \<Longrightarrow>
     should_stop s1 \<and> ev1 = [Log TranslationCancelled] \<and> deepl_api_key s1 = deepl_api_key s"
  by (auto simp: other_thread_def stop_translation_def Let_def split: option.splits)

lemma other_thread_cases:
  "other_thread e i s = (s1, ev1) \<Longrightarrow>
     (s1 = s \<and> ev1 = []) \<or> (should_stop s1 \<and> ev1 = [Log TranslationCancelled])"
  by (auto simp: other_thread_def stop_translation_def Let_def split: option.splits if_splits)

lemma other_thread_fields:
  "other_thread e i s = (s1, ev1) \<Longrightarrow>
     deepl_api_key s1 = deepl_api_key s \<and> quota s1 = quota s \<and> used_quota s1 = used_quota s
     \<and> translated_count s1 = translated_count s"
  by (auto simp: other_thread_def stop_translation_def Let_def split: option.splits if_splits)

text \<open>One iteration that is not stopped.\<close>

lemma translate_loop_step:
  assumes "\<not> should_stop s" "\<not> stop_pressed e i"
    "translate_loop e src dst tot (Suc i) subs (fst (attempt_entry e src dst tot i sub s))
       = (d, s3, subs3, ev3)"
  shows "translate_loop e src dst tot i (sub # subs) s =
     (d, s3, fst (snd (attempt_entry e src dst tot i sub s)) # subs3,
      snd (snd (attempt_entry e src dst tot i sub s)) @ ev3)"
  using assms by (auto simp: other_thread_quiet split: prod.splits)

lemma translate_loop_done_Cons:
  assumes "translate_loop e src dst tot i (sub # subs) s = (True, s', subs', evs)"
  shows "\<not> should_stop s \<and> \<not> stop_pressed e i \<and>
    (\<exists>subs2 ev3. translate_loop e src dst tot (Suc i) subs
        (fst (attempt_entry e src dst tot i sub s)) = (True, s', subs2, ev3)
      \<and> subs' = fst (snd (attempt_entry e src dst tot i sub s)) # subs2
      \<and> evs = snd (snd (attempt_entry e src dst tot i sub s)) @ ev3)"
proof -
  obtain s1 ev1 where ot: "other_thread e i s = (s1, ev1)"
    by (cases "other_thread e i s")
  from assms ot have ns: "\<not> should_stop s1"
    by (auto split: if_splits)
  with ot have quiet: "\<not> stop_pressed e i"
    using other_thread_stops by blast
  then have eq: "s1 = s" "ev1 = []"
    using ot by (simp_all add: other_thread_quiet)
  with ns have "\<not> should_stop s" by simp
  moreover from assms ot eq ns
  have "\<exists>subs2 ev3. translate_loop e src dst tot (Suc i) subs
        (fst (attempt_entry e src dst tot i sub s)) = (True, s', subs2, ev3)
      \<and> subs' = fst (snd (attempt_entry e src dst tot i sub s)) # subs2
      \<and> evs = snd (snd (attempt_entry e src dst tot i sub s)) @ ev3"
    by (auto split: prod.splits)
  ultimately show ?thesis using quiet by blast
qed

lemma attempt_entry_state:
  "fst (attempt_entry e src dst tot i sub s) =
     s\<lparr>used_quota := used_quota s + characters (deepl e i (form_data (deepl_api_key s) src dst sub)),
       translated_count := translated_count s +
         (if succeeded (deepl e i (form_data (deepl_api_key s) src dst sub)) then 1 else 0)\<rparr>"
  by (simp add: attempt_entry_def Let_def size_of_def split: attempt.splits option.splits)

lemma attempt_entry_sub:
  "fst (snd (attempt_entry e src dst tot i sub s)) =
     written (deepl e i (form_data (deepl_api_key s) src dst sub)) sub"
  by (simp add: attempt_entry_def Let_def split: attempt.splits option.splits)

lemma attempt_entry_posts:
  "posts (snd (snd (attempt_entry e src dst tot i sub s))) =
     [form_data (deepl_api_key s) src dst sub]"
  by (simp add: attempt_entry_def Let_def split: attempt.splits option.splits)

lemma attempt_entry_progress:
  "progress_calls (snd (snd (attempt_entry e src dst tot i sub s))) =
     (if succeeded (deepl e i (form_data (deepl_api_key s) src dst sub)) \<and>
         quota_callback_raises e i = None
      then [of_nat (Suc (translated_count s)) / of_nat tot] else [])"
  by (simp add: attempt_entry_def Let_def split: attempt.splits option.splits)

lemma attempt_entry_quiet:
  "error_calls (snd (snd (attempt_entry e src dst tot i sub s))) = [] \<and>
   saves (snd (snd (attempt_entry e src dst tot i sub s))) = [] \<and>
   status_calls (snd (snd (attempt_entry e src dst tot i sub s))) = []"
  by (simp add: attempt_entry_def Let_def split: attempt.splits option.splits)

lemma attempt_entry_forget_quota:
  assumes "deepl_api_key t = deepl_api_key s" "translated_count t = translated_count s"
  shows "map forget_quota (snd (snd (attempt_entry e src dst tot i sub t))) =
         map forget_quota (snd (snd (attempt_entry e src dst tot i sub s)))"
  using assms by (simp add: attempt_entry_def Let_def split: attempt.splits option.splits)

lemmas attempt_entry_simps = attempt_entry_state attempt_entry_sub

lemma success_numbers_Nil: "success_numbers i [] = []"
  by (simp add: success_numbers_def)

lemma success_numbers_Cons:
  "success_numbers i (a # os) =
     (if succeeded a then i # success_numbers (Suc i) os else success_numbers (Suc i) os)"
  by (simp add: success_numbers_def)

lemma length_success_numbers: "length (success_numbers i os) = length (filter succeeded os)"
  by (induction os arbitrary: i) (simp_all add: success_numbers_Nil success_numbers_Cons)

lemma progress_fractions_Nil: "progress_fractions e tot c [] = []"
  by (simp add: progress_fractions_def)

lemma progress_fractions_Cons:
  "progress_fractions e tot c (n # ns) =
     (if quota_callback_raises e n = None then [of_nat (Suc c) / of_nat tot] else []) @
     progress_fractions e tot (Suc c) ns"
  by (simp add: progress_fractions_def reaches_progress_def fraction_def)

lemma translate_loop_done_subtitles:
  "translate_loop e src dst tot i subs s = (True, s', subs', evs) \<Longrightarrow>
     subs' = map2 written (outcomes e (deepl_api_key s) src dst i subs) subs"
proof (induction subs arbitrary: i s subs' evs)
  case Nil
  then show ?case by simp
next
  case (Cons sub subs)
  from translate_loop_done_Cons[OF Cons.prems] obtain subs2 ev3 where
    rec: "translate_loop e src dst tot (Suc i) subs
            (fst (attempt_entry e src dst tot i sub s)) = (True, s', subs2, ev3)" and
    parts: "subs' = fst (snd (attempt_entry e src dst tot i sub s)) # subs2"
      "evs = snd (snd (attempt_entry e src dst tot i sub s)) @ ev3"
    by blast
  show ?case
    using Cons.IH[OF rec] parts
    by (cases "deepl e i (form_data (deepl_api_key s) src dst sub)")
       (simp_all add: attempt_entry_simps )
qed

lemma translate_loop_done_count:
  "translate_loop e src dst tot i subs s = (True, s', subs', evs) \<Longrightarrow>
     translated_count s' = translated_count s +
       length (filter succeeded (outcomes e (deepl_api_key s) src dst i subs))"
proof (induction subs arbitrary: i s subs' evs)
  case Nil
  then show ?case by simp
next
  case (Cons sub subs)
  from translate_loop_done_Cons[OF Cons.prems] obtain subs2 ev3 where
    rec: "translate_loop e src dst tot (Suc i) subs
            (fst (attempt_entry e src dst tot i sub s)) = (True, s', subs2, ev3)" and
    parts: "subs' = fst (snd (attempt_entry e src dst tot i sub s)) # subs2"
      "evs = snd (snd (attempt_entry e src dst tot i sub s)) @ ev3"
    by blast
  show ?case
    using Cons.IH[OF rec] parts
    by (cases "deepl e i (form_data (deepl_api_key s) src dst sub)")
       (simp_all add: attempt_entry_simps )
qed

lemma translate_loop_done_quota:
  "translate_loop e src dst tot i subs s = (True, s', subs', evs) \<Longrightarrow>
     used_quota s' = used_quota s +
       sum_list (map characters (outcomes e (deepl_api_key s) src dst i subs))"
proof (induction subs arbitrary: i s subs' evs)
  case Nil
  then show ?case by simp
next
  case (Cons sub subs)
  from translate_loop_done_Cons[OF Cons.prems] obtain subs2 ev3 where
    rec: "translate_loop e src dst tot (Suc i) subs
            (fst (attempt_entry e src dst tot i sub s)) = (True, s', subs2, ev3)" and
    parts: "subs' = fst (snd (attempt_entry e src dst tot i sub s)) # subs2"
      "evs = snd (snd (attempt_entry e src dst tot i sub s)) @ ev3"
    by blast
  show ?case
    using Cons.IH[OF rec] parts
    by (cases "deepl e i (form_data (deepl_api_key s) src dst sub)")
       (simp_all add: attempt_entry_simps )
qed

lemma translate_loop_done_posts:
  "translate_loop e src dst tot i subs s = (True, s', subs', evs) \<Longrightarrow>
     posts evs = map (form_data (deepl_api_key s) src dst) subs"
proof (induction subs arbitrary: i s subs' evs)
  case Nil
  then show ?case by simp
next
  case (Cons sub subs)
  from translate_loop_done_Cons[OF Cons.prems] obtain subs2 ev3 where
    rec: "translate_loop e src dst tot (Suc i) subs
            (fst (attempt_entry e src dst tot i sub s)) = (True, s', subs2, ev3)" and
    parts: "subs' = fst (snd (attempt_entry e src dst tot i sub s)) # subs2"
      "evs = snd (snd (attempt_entry e src dst tot i sub s)) @ ev3"
    by blast
  show ?case
    using Cons.IH[OF rec] parts
    by (simp add: attempt_entry_simps attempt_entry_posts posts_append)
qed

lemma translate_loop_done_progress:
  "translate_loop e src dst tot i subs s = (True, s', subs', evs) \<Longrightarrow>
     progress_calls evs =
       progress_fractions e tot (translated_count s)
         (success_numbers i (outcomes e (deepl_api_key s) src dst i subs))"
proof (induction subs arbitrary: i s subs' evs)
  case Nil
  then show ?case by (simp add: success_numbers_Nil progress_fractions_Nil)
next
  case (Cons sub subs)
  from translate_loop_done_Cons[OF Cons.prems] obtain subs2 ev3 where
    rec: "translate_loop e src dst tot (Suc i) subs
            (fst (attempt_entry e src dst tot i sub s)) = (True, s', subs2, ev3)" and
    parts: "subs' = fst (snd (attempt_entry e src dst tot i sub s)) # subs2"
      "evs = snd (snd (attempt_entry e src dst tot i sub s)) @ ev3"
    by blast
  show ?case
    using Cons.IH[OF rec] parts
    by (simp add: attempt_entry_simps attempt_entry_progress progress_calls_append
          success_numbers_Cons progress_fractions_Cons)
qed

lemma translate_loop_fields:
  "translate_loop e src dst tot i subs s = (d, s', subs', evs) \<Longrightarrow>
     deepl_api_key s' = deepl_api_key s \<and> quota s' = quota s \<and> length subs' = length subs
     \<and> error_calls evs = [] \<and> saves evs = [] \<and> status_calls evs = []"
proof (induction subs arbitrary: i s d s' subs' evs)
  case Nil
  then show ?case by auto
next
  case (Cons sub subs)
  obtain s1 ev1 where ot: "other_thread e i s = (s1, ev1)"
    by (cases "other_thread e i s")
  note f1 = other_thread_fields[OF ot] and c1 = other_thread_cases[OF ot]
  show ?case
  proof (cases "should_stop s1")
    case True
    with Cons.prems ot f1 c1 show ?thesis by auto
  next
    case False
    obtain d3 s3 subs3 ev3 where rec:
      "translate_loop e src dst tot (Suc i) subs (fst (attempt_entry e src dst tot i sub s1))
         = (d3, s3, subs3, ev3)"
      by (metis prod_cases4)
    from Cons.prems ot False rec have res:
      "s' = s3" "subs' = fst (snd (attempt_entry e src dst tot i sub s1)) # subs3"
      "evs = ev1 @ snd (snd (attempt_entry e src dst tot i sub s1)) @ ev3"
      by (auto split: prod.splits)
    from Cons.IH[OF rec] f1 c1 res show ?thesis
      by (auto simp: attempt_entry_simps attempt_entry_quiet error_calls_append saves_append
            status_calls_append)
  qed
qed

text \<open>A run nobody stops runs to the end.\<close>

lemma translate_loop_not_stopped:
  assumes "\<not> should_stop s" "\<forall>j. \<not> stop_pressed e j"
  shows "fst (translate_loop e src dst tot i subs s)"
  using assms
proof (induction subs arbitrary: i s)
  case Nil
  then show ?case by simp
next
  case (Cons sub subs)
  have "\<not> should_stop (fst (attempt_entry e src dst tot i sub s))"
    using Cons.prems by (simp add: attempt_entry_simps)
  from Cons.IH[OF this Cons.prems(2), of "Suc i"] Cons.prems show ?case
    by (auto simp: other_thread_quiet split: prod.splits)
qed

lemma translate_loop_cancelled:
  assumes "\<not> should_stop s" "\<forall>j<k. \<not> stop_pressed e (i + j)" "stop_pressed e (i + k)"
    "k < length subs"
  shows "\<exists>s' evs. translate_loop e src dst tot i subs s =
      (False, s',
       map2 written (outcomes e (deepl_api_key s) src dst i (take k subs)) (take k subs) @
         drop k subs, evs)
     \<and> posts evs = map (form_data (deepl_api_key s) src dst) (take k subs)"
  using assms
proof (induction subs arbitrary: i k s)
  case Nil
  then show ?case by simp
next
  case (Cons sub subs)
  show ?case
  proof (cases k)
    case 0
    with Cons.prems have sp: "stop_pressed e i" by simp
    obtain s1 ev1 where ot: "other_thread e i s = (s1, ev1)"
      by (cases "other_thread e i s")
    from other_thread_stops[OF sp ot] ot 0 show ?thesis by simp
  next
    case (Suc k')
    let ?s2 = "fst (attempt_entry e src dst tot i sub s)"
    from Cons.prems Suc have quiet: "\<not> stop_pressed e i" by force
    have ns: "\<not> should_stop ?s2"
      using Cons.prems(1) by (simp add: attempt_entry_simps)
    have key: "deepl_api_key ?s2 = deepl_api_key s"
      by (simp add: attempt_entry_simps)
    have a: "\<forall>j<k'. \<not> stop_pressed e (Suc i + j)"
      using Cons.prems(2) Suc by (metis Suc_less_eq add_Suc_shift)
    have b: "stop_pressed e (Suc i + k')"
      using Cons.prems(3) Suc by simp
    have c: "k' < length subs"
      using Cons.prems(4) Suc by simp
    from Cons.IH[OF ns a b c] obtain s' ev3 where
      rec: "translate_loop e src dst tot (Suc i) subs ?s2 =
        (False, s',
         map2 written (outcomes e (deepl_api_key s) src dst (Suc i) (take k' subs)) (take k' subs) @
           drop k' subs, ev3)" and
      p3: "posts ev3 = map (form_data (deepl_api_key s) src dst) (take k' subs)"
      unfolding key by blast
    show ?thesis
      using p3 Suc
      by (simp add: translate_loop_step[OF Cons.prems(1) quiet rec] posts_append
            attempt_entry_simps attempt_entry_posts del: translate_loop.simps)
  qed
qed

lemma translate_srt_opened:
  assumes "lower (splitext_ext fp) = ''.srt''" "pysrt_open e fp = Some doc"
    "translate_loop e src dst (length doc) 1 doc (s\<lparr>translated_count := 0\<rparr>) = (d, s1, subs1, evs)"
  shows "translate_srt e fp out src dst s =
     \<lparr>run_ending = Returned, run_state = s1, run_subtitles = subs1,
      run_events = Log (TotalSubtitles (length doc)) # evs @
        (if d then [Save out subs1, Log (FileSaved out),
                    StatusCallback STATUS_TRANSLATION_COMPLETED] else [])\<rparr>"
  using assms by (simp add: translate_srt_def)

lemma completed_run:
  assumes "completed (translate_srt e fp out src dst s)" "pysrt_open e fp = Some doc"
  shows "\<exists>s1 subs1 evs.
     translate_loop e src dst (length doc) 1 doc (s\<lparr>translated_count := 0\<rparr>) = (True, s1, subs1, evs)
     \<and> translate_srt e fp out src dst s =
       \<lparr>run_ending = Returned, run_state = s1, run_subtitles = subs1,
        run_events = Log (TotalSubtitles (length doc)) # evs @
          [Save out subs1, Log (FileSaved out), StatusCallback STATUS_TRANSLATION_COMPLETED]\<rparr>"
proof -
  have ext: "lower (splitext_ext fp) = ''.srt''"
    using assms(1) by (auto simp: completed_def translate_srt_def split: if_splits)
  obtain d s1 subs1 evs where
    loop: "translate_loop e src dst (length doc) 1 doc (s\<lparr>translated_count := 0\<rparr>) = (d, s1, subs1, evs)"
    by (metis prod_cases4)
  note r = translate_srt_opened[OF ext assms(2) loop]
  have "status_calls evs = []"
    using translate_loop_fields[OF loop] by simp
  with assms(1) r have d by (auto simp: completed_def status_calls_append split: if_splits)
  with r loop show ?thesis by simp
qed

lemma not_stopped_run:
  assumes "lower (splitext_ext fp) = ''.srt''" "pysrt_open e fp = Some doc"
    "\<not> should_stop s" "\<forall>j. \<not> stop_pressed e j"
  shows "completed (translate_srt e fp out src dst s)"
proof -
  obtain d s1 subs1 evs where
    loop: "translate_loop e src dst (length doc) 1 doc (s\<lparr>translated_count := 0\<rparr>) = (d, s1, subs1, evs)"
    by (metis prod_cases4)
  have "fst (translate_loop e src dst (length doc) 1 doc (s\<lparr>translated_count := 0\<rparr>))"
    using assms(3,4) by (intro translate_loop_not_stopped) simp_all
  with loop have d by simp
  with translate_srt_opened[OF assms(1,2) loop] translate_loop_fields[OF loop]
  show ?thesis by (simp add: completed_def status_calls_append)
qed

lemma strip_empty_iff: "strip k = [] \<longleftrightarrow> list_all isspace k"
proof
  assume "strip k = []"
  then have "\<forall>c\<in>set (dropWhile isspace k). isspace c"
    by (simp add: strip_def)
  then have "dropWhile isspace k = []"
    by (metis hd_dropWhile hd_in_set)
  then show "list_all isspace k"
    by (simp add: list_all_iff)
next
  assume "list_all isspace k"
  then have d: "dropWhile isspace k = []"
    by (simp add: list_all_iff)
  show "strip k = []"
    unfolding strip_def d by simp
qed

lemma fst_enumerate_less:
  "kn \<in> set (enumerate c ns) \<Longrightarrow> c \<le> fst kn \<and> fst kn < c + length ns"
  by (cases kn) (auto simp: in_set_enumerate_eq)

lemma progress_fractions_bounds:
  "f \<in> set (progress_fractions e tot c ns) \<Longrightarrow>
     \<exists>k. c \<le> k \<and> k < c + length ns \<and> f = of_nat (Suc k) / of_nat tot"
  by (auto simp: progress_fractions_def fraction_def dest: fst_enumerate_less)

lemma progress_fractions_sorted:
  assumes "c + length ns \<le> tot"
  shows "sorted_wrt (<) (progress_fractions e tot c ns)"
  using assms
proof (induction ns arbitrary: c)
  case Nil
  then show ?case by (simp add: progress_fractions_Nil)
next
  case (Cons n ns)
  then have pos: "0 < tot" by simp
  have later: "(of_nat (Suc c) / of_nat tot :: rat) < f"
    if "f \<in> set (progress_fractions e tot (Suc c) ns)" for f
  proof -
    from progress_fractions_bounds[OF that] obtain k where
      k: "Suc c \<le> k" "f = of_nat (Suc k) / of_nat tot"
      by blast
    from k(1) have "(of_nat (Suc c) :: rat) < of_nat (Suc k)"
      by (simp del: of_nat_Suc)
    with pos show ?thesis
      unfolding k(2) by (simp add: divide_strict_right_mono del: of_nat_Suc)
  qed
  from Cons.prems have "Suc c + length ns \<le> tot" by simp
  from Cons.IH[OF this] later show ?case
    by (simp add: progress_fractions_Cons)
qed

lemma length_progress_fractions: "length (progress_fractions e tot c ns) \<le> length ns"
  unfolding progress_fractions_def
  by (metis length_enumerate length_filter_le length_map)

lemma progress_fractions_all:
  assumes "\<forall>n\<in>set ns. quota_callback_raises e n = None"
  shows "progress_fractions e tot c ns =
           map (\<lambda>k. of_nat (Suc k) / of_nat tot) [c ..< c + length ns]"
  using assms
proof (induction ns arbitrary: c)
  case Nil
  then show ?case by (simp add: progress_fractions_Nil)
next
  case (Cons n ns)
  then show ?case
    by (simp add: progress_fractions_Cons upt_conv_Cons del: upt_Suc)
qed

lemma same_but_quota_loop:
  assumes "same_but_quota s t"
    "translate_loop e src dst tot i subs s = (d, s', subs', evs)"
    "translate_loop e src dst tot i subs t = (d2, t', subs2, evs2)"
  shows "d2 = d \<and> subs2 = subs' \<and> same_but_quota s' t' \<and>
     map forget_quota evs2 = map forget_quota evs"
  using assms
proof (induction subs arbitrary: i s t d s' subs' evs d2 t' subs2 evs2)
  case Nil
  then show ?case by auto
next
  case (Cons sub subs)
  obtain s1 ev1 where ots: "other_thread e i s = (s1, ev1)"
    by (cases "other_thread e i s")
  obtain t1 ev1' where ott: "other_thread e i t = (t1, ev1')"
    by (cases "other_thread e i t")
  from ots ott Cons.prems(1) have same1: "same_but_quota s1 t1" and ev1: "ev1' = ev1"
    by (auto simp: other_thread_def stop_translation_def same_but_quota_def Let_def
          split: if_splits option.splits)
  show ?case
  proof (cases "should_stop s1")
    case True
    with same1 have "should_stop t1" by (simp add: same_but_quota_def)
    with True Cons.prems(2,3) ots ott same1 ev1 show ?thesis by auto
  next
    case False
    with same1 have nt: "\<not> should_stop t1" by (simp add: same_but_quota_def)
    let ?s2 = "fst (attempt_entry e src dst tot i sub s1)"
    let ?t2 = "fst (attempt_entry e src dst tot i sub t1)"
    have key: "deepl_api_key t1 = deepl_api_key s1" "translated_count t1 = translated_count s1"
      using same1 by (simp_all add: same_but_quota_def)
    have same2: "same_but_quota ?s2 ?t2"
      using same1 by (simp add: attempt_entry_simps same_but_quota_def)
    obtain d3 s3 subs3 ev3 where recs:
      "translate_loop e src dst tot (Suc i) subs ?s2 = (d3, s3, subs3, ev3)"
      by (metis prod_cases4)
    obtain d4 t3 subs4 ev4 where rect:
      "translate_loop e src dst tot (Suc i) subs ?t2 = (d4, t3, subs4, ev4)"
      by (metis prod_cases4)
    from Cons.prems(2) ots False recs have res:
      "d = d3" "s' = s3" "subs' = fst (snd (attempt_entry e src dst tot i sub s1)) # subs3"
      "evs = ev1 @ snd (snd (attempt_entry e src dst tot i sub s1)) @ ev3"
      by (auto split: prod.splits)
    from Cons.prems(3) ott nt rect have ret:
      "d2 = d4" "t' = t3" "subs2 = fst (snd (attempt_entry e src dst tot i sub t1)) # subs4"
      "evs2 = ev1' @ snd (snd (attempt_entry e src dst tot i sub t1)) @ ev4"
      by (auto split: prod.splits)
    from Cons.IH[OF same2 recs rect] res ret ev1 key
      attempt_entry_forget_quota[OF key, of e src dst tot i sub]
    show ?thesis
      by (simp add: attempt_entry_simps)
  qed
qed

subsection \<open>The example runs, evaluated\<close>

lemma srt_film: "lower (splitext_ext ''film.srt'') = ''.srt''"
  by code_simp

lemma run_fail2:
  "translate_srt env_fail2 ''film.srt'' ''film.de.srt'' ''EN'' ''DE'' fresh =
     \<lparr>run_ending = Returned,
      run_state = fresh\<lparr>translated_count := 2, used_quota := 14\<rparr>,
      run_subtitles =
        [\<lparr>index = 1, start = 0, end' = 1000, text' = Str ''de:one''\<rparr>,
         \<lparr>index = 2, start = 1000, end' = 2000, text' = Str ''two''\<rparr>,
         \<lparr>index = 3, start = 2000, end' = 3000, text' = Str ''de:three''\<rparr>],
      run_events =
        [Log (TotalSubtitles 3),
         Post \<lparr>auth_key = Some ''secret'', req_text = Str ''one'', source_lang = ''EN'', target_lang = ''DE''\<rparr>,
         QuotaCallback 6, ProgressCallback (1 / 3), Sleep SLEEP_TIME,
         Post \<lparr>auth_key = Some ''secret'', req_text = Str ''two'', source_lang = ''EN'', target_lang = ''DE''\<rparr>,
         Log (ErrorOccurred HTTPError),
         Post \<lparr>auth_key = Some ''secret'', req_text = Str ''three'', source_lang = ''EN'', target_lang = ''DE''\<rparr>,
         QuotaCallback 14, ProgressCallback (2 / 3), Sleep SLEEP_TIME,
         Save ''film.de.srt''
           [\<lparr>index = 1, start = 0, end' = 1000, text' = Str ''de:one''\<rparr>,
            \<lparr>index = 2, start = 1000, end' = 2000, text' = Str ''two''\<rparr>,
            \<lparr>index = 3, start = 2000, end' = 3000, text' = Str ''de:three''\<rparr>],
         Log (FileSaved ''film.de.srt''),
         StatusCallback STATUS_TRANSLATION_COMPLETED]\<rparr>"
  by (simp add: translate_srt_def srt_film env_fail2_def doc3_def fresh_def Translator_init_def
        attempt_entry_def other_thread_def form_data_def)

lemma completed_fail2:
  "completed (translate_srt env_fail2 ''film.srt'' ''film.de.srt'' ''EN'' ''DE'' fresh)"
  by (simp add: run_fail2 completed_def)

lemma opened_fail2: "pysrt_open env_fail2 ''film.srt'' = Some doc3"
  by (simp add: env_fail2_def)

lemma outcomes_fail2:
  "outcomes env_fail2 (Some ''secret'') ''EN'' ''DE'' (Suc 0) doc3 =
     [Returns (Str ''de:one''), Raises HTTPError, Returns (Str ''de:three'')]"
  by (simp add: env_fail2_def doc3_def form_data_def)

lemma key_fresh: "deepl_api_key fresh = Some ''secret''"
  by (simp add: fresh_def Translator_init_def)

subsection \<open>C1: what \<open>translated_count\<close> counts\<close>

text \<open>
  C1 as the specification states it: when the translation of an entry fails,
  \<open>translated_count\<close> is still incremented, so that after a run over a 3-entry document
  whose second request is answered with an error status the counter is 3.
  On the code this is false: in the run \<open>env_fail2\<close> over the three entries of \<open>doc3\<close>
  the second request raises \<^verbatim>\<open>HTTPError\<close>, the run is completed, and the counter is not 3.
\<close>

theorem C1_counterexample:
  "length doc3 = 3 \<and>
   outcomes env_fail2 (deepl_api_key fresh) ''EN'' ''DE'' 1 doc3 ! 1 = Raises HTTPError \<and>
   completed (translate_srt env_fail2 ''film.srt'' ''film.de.srt'' ''EN'' ''DE'' fresh) \<and>
   translated_count
     (run_state (translate_srt env_fail2 ''film.srt'' ''film.de.srt'' ''EN'' ''DE'' fresh)) \<noteq> 3"
proof -
  have "length doc3 = 3"
    by (simp add: doc3_def)
  moreover have
    "outcomes env_fail2 (deepl_api_key fresh) ''EN'' ''DE'' 1 doc3 ! 1 = Raises HTTPError"
    by (simp add: key_fresh outcomes_fail2)
  moreover have "translated_count
     (run_state (translate_srt env_fail2 ''film.srt'' ''film.de.srt'' ''EN'' ''DE'' fresh)) \<noteq> 3"
    by (simp add: run_fail2)
  ultimately show ?thesis
    using completed_fail2 by simp
qed

text \<open>
  C1 as amended: \<open>translated_count\<close> is incremented inside the \<^verbatim>\<open>try\<close> block after the
  translated text has been stored, so an attempt that raises leaves it as it was, and
  after a completed run it is the number of entries whose translation succeeded.
\<close>

theorem C1_translated_count_counts_successes:
  assumes "completed (translate_srt e fp out src dst s)" "pysrt_open e fp = Some doc"
  shows "translated_count (run_state (translate_srt e fp out src dst s)) =
           length (filter succeeded (outcomes e (deepl_api_key s) src dst 1 doc)) \<and>
         (deepl e i (form_data (deepl_api_key s') src dst sub) = Raises err \<longrightarrow>
           translated_count (fst (attempt_entry e src dst tot i sub s')) = translated_count s')"
proof -
  from completed_run[OF assms] obtain s1 subs1 evs where
    loop: "translate_loop e src dst (length doc) 1 doc (s\<lparr>translated_count := 0\<rparr>) =
             (True, s1, subs1, evs)" and
    r: "run_state (translate_srt e fp out src dst s) = s1"
    by force
  from translate_loop_done_count[OF loop] r
  have "translated_count (run_state (translate_srt e fp out src dst s)) =
           length (filter succeeded (outcomes e (deepl_api_key s) src dst 1 doc))"
    by simp
  then show ?thesis
    by (simp add: attempt_entry_simps)
qed

text \<open>The amended C1 on the 3-entry run whose second request fails: the counter is 2.\<close>

theorem C1_translated_count_counts_successes_witness:
  "completed (translate_srt env_fail2 ''film.srt'' ''film.de.srt'' ''EN'' ''DE'' fresh) \<and>
   pysrt_open env_fail2 ''film.srt'' = Some doc3 \<and>
   length doc3 = 3 \<and>
   outcomes env_fail2 (deepl_api_key fresh) ''EN'' ''DE'' 1 doc3 ! 1 = Raises HTTPError \<and>
   translated_count
     (run_state (translate_srt env_fail2 ''film.srt'' ''film.de.srt'' ''EN'' ''DE'' fresh)) = 2"
  using C1_translated_count_counts_successes[OF completed_fail2 opened_fail2,
      where i = 2 and s' = fresh and sub = "doc3 ! 1" and err = HTTPError and tot = 3]
    completed_fail2 opened_fail2
  by (simp add: key_fresh outcomes_fail2) (simp add: doc3_def)

subsection \<open>C2: cancelling a run\<close>

lemma run_stop2:
  "translate_srt env_stop2 ''film.srt'' ''film.de.srt'' ''EN'' ''DE'' fresh =
     \<lparr>run_ending = Returned,
      run_state = fresh\<lparr>should_stop := True, translated_count := 1, used_quota := 6\<rparr>,
      run_subtitles =
        [\<lparr>index = 1, start = 0, end' = 1000, text' = Str ''de:one''\<rparr>,
         \<lparr>index = 2, start = 1000, end' = 2000, text' = Str ''two''\<rparr>,
         \<lparr>index = 3, start = 2000, end' = 3000, text' = Str ''three''\<rparr>],
      run_events =
        [Log (TotalSubtitles 3),
         Post \<lparr>auth_key = Some ''secret'', req_text = Str ''one'', source_lang = ''EN'', target_lang = ''DE''\<rparr>,
         QuotaCallback 6, ProgressCallback (1 / 3), Sleep SLEEP_TIME,
         Log TranslationCancelled]\<rparr>"
  by (simp add: translate_srt_def srt_film env_stop2_def doc3_def fresh_def Translator_init_def
        attempt_entry_def other_thread_def form_data_def stop_translation_def)

text \<open>
  C2 as the specification states it: when the stop flag is set after \<open>k < N\<close> entries, the
  run stops at the next check and the document is still saved to the output path.
  On the code this is false: in the run \<open>env_stop2\<close> the flag is clear at the first check
  and set before the second, and nothing is saved.
\<close>

theorem C2_counterexample:
  "\<not> should_stop fresh \<and> \<not> stop_pressed env_stop2 1 \<and> stop_pressed env_stop2 2 \<and>
   saves (run_events (translate_srt env_stop2 ''film.srt'' ''film.de.srt'' ''EN'' ''DE'' fresh)) = []"
  by (simp add: run_stop2) (simp add: env_stop2_def fresh_def Translator_init_def)

text \<open>
  C2 as amended: when the stop flag is clear at the start and \<^verbatim>\<open>stop_translation\<close> is
  called just before the check of entry \<open>k + 1\<close> (\<open>k < N\<close>), the run leaves
  \<^verbatim>\<open>translate_srt\<close> through the \<^verbatim>\<open>return\<close> at that check: it has posted the requests of
  the first \<open>k\<close> entries only, it saves nothing and reports no status. In memory the first
  \<open>k\<close> entries carry their translation where their request succeeded, and the remaining
  \<open>N - k\<close> entries are as they were read.
\<close>

theorem C2_cancelled_run_is_not_saved:
  assumes "lower (splitext_ext fp) = ''.srt''" "pysrt_open e fp = Some doc"
    "k < length doc" "\<not> should_stop s"
    "\<forall>j<k. \<not> stop_pressed e (Suc j)" "stop_pressed e (Suc k)"
  shows "run_ending (translate_srt e fp out src dst s) = Returned \<and>
    saves (run_events (translate_srt e fp out src dst s)) = [] \<and>
    status_calls (run_events (translate_srt e fp out src dst s)) = [] \<and>
    posts (run_events (translate_srt e fp out src dst s)) =
      map (form_data (deepl_api_key s) src dst) (take k doc) \<and>
    take k (run_subtitles (translate_srt e fp out src dst s)) =
      map2 written (outcomes e (deepl_api_key s) src dst 1 (take k doc)) (take k doc) \<and>
    drop k (run_subtitles (translate_srt e fp out src dst s)) = drop k doc"
proof -
  let ?s0 = "s\<lparr>translated_count := 0\<rparr>"
  have "\<exists>s' evs. translate_loop e src dst (length doc) 1 doc ?s0 =
      (False, s',
       map2 written (outcomes e (deepl_api_key ?s0) src dst 1 (take k doc)) (take k doc) @
         drop k doc, evs)
     \<and> posts evs = map (form_data (deepl_api_key ?s0) src dst) (take k doc)"
    using assms(3-6) by (intro translate_loop_cancelled) simp_all
  then obtain s' evs where
    loop: "translate_loop e src dst (length doc) 1 doc ?s0 =
      (False, s',
       map2 written (outcomes e (deepl_api_key s) src dst 1 (take k doc)) (take k doc) @
         drop k doc, evs)" and
    p: "posts evs = map (form_data (deepl_api_key s) src dst) (take k doc)"
    by auto
  have len: "length (map2 written (outcomes e (deepl_api_key s) src dst 1 (take k doc)) (take k doc)) = k"
    using assms(3) by (simp add: length_outcomes)
  from translate_srt_opened[OF assms(1,2) loop] translate_loop_fields[OF loop] p len
  show ?thesis by simp
qed

text \<open>The amended C2 on the 3-entry run stopped after its first entry.\<close>

theorem C2_cancelled_run_is_not_saved_witness:
  "saves (run_events (translate_srt env_stop2 ''film.srt'' ''film.de.srt'' ''EN'' ''DE'' fresh)) = [] \<and>
   drop 1 (run_subtitles (translate_srt env_stop2 ''film.srt'' ''film.de.srt'' ''EN'' ''DE'' fresh))
     = drop 1 doc3"
proof -
  have a: "pysrt_open env_stop2 ''film.srt'' = Some doc3"
    by (simp add: env_stop2_def)
  have b: "1 < length doc3"
    by (simp add: doc3_def)
  have c: "\<not> should_stop fresh"
    by (simp add: fresh_def Translator_init_def)
  have d: "\<forall>j<1. \<not> stop_pressed env_stop2 (Suc j)"
    by (simp add: env_stop2_def)
  have f: "stop_pressed env_stop2 (Suc 1)"
    by (simp add: env_stop2_def)
  from C2_cancelled_run_is_not_saved[OF srt_film a b c d f, of "''film.de.srt''" "''EN''" "''DE''"]
  show ?thesis by simp
qed

subsection \<open>C3: the progress notifications of a completed run\<close>

lemma count_le: "length (filter succeeded (outcomes e key src dst i subs)) \<le> length subs"
  by (metis length_filter_le length_outcomes)

text \<open>
  C3 as the specification states it: after a run that finishes without cancellation over
  \<open>N\<close> entries, \<open>translated_count\<close> is \<open>N\<close> and the progress callback was called exactly
  \<open>N\<close> times, with strictly increasing fractions that end at 1.
  On the code this is false: the completed run \<open>env_fail2\<close> over three entries leaves the
  counter different from 3 and calls the progress callback twice, with \<open>1/3\<close> and \<open>2/3\<close>.
\<close>

theorem C3_counterexample:
  "completed (translate_srt env_fail2 ''film.srt'' ''film.de.srt'' ''EN'' ''DE'' fresh) \<and>
   length doc3 = 3 \<and>
   translated_count
     (run_state (translate_srt env_fail2 ''film.srt'' ''film.de.srt'' ''EN'' ''DE'' fresh)) \<noteq> 3 \<and>
   progress_calls
     (run_events (translate_srt env_fail2 ''film.srt'' ''film.de.srt'' ''EN'' ''DE'' fresh)) =
     [1 / 3, 2 / 3]"
proof -
  have "length doc3 = 3"
    by (simp add: doc3_def)
  then show ?thesis
    using completed_fail2 by (simp add: run_fail2)
qed

text \<open>
  C3 as amended: after a completed run over \<open>N\<close> entries of which \<open>S\<close> were translated
  successfully, \<open>translated_count\<close> is \<open>S\<close> (at most \<open>N\<close>). The progress callback was
  called once for each successfully translated entry whose quota callback returned, in
  the order of the entries, with the number of successes so far over \<open>N\<close> (as an exact
  rational): at most \<open>S\<close> calls, with strictly increasing fractions, and exactly the
  fractions \<open>1/N, 2/N, \<dots>, S/N\<close> when the quota callback raised at none of these entries.
  When moreover every entry succeeded and the document is not empty, the counter is \<open>N\<close>,
  there were \<open>N\<close> calls and the last fraction is 1.
\<close>

theorem C3_progress_follows_successes:
  assumes "completed (translate_srt e fp out src dst s)" "pysrt_open e fp = Some doc"
  shows "translated_count (run_state (translate_srt e fp out src dst s)) =
      length (filter succeeded (outcomes e (deepl_api_key s) src dst 1 doc)) \<and>
    length (filter succeeded (outcomes e (deepl_api_key s) src dst 1 doc)) \<le> length doc \<and>
    progress_calls (run_events (translate_srt e fp out src dst s)) =
      progress_fractions e (length doc) 0
        (success_numbers 1 (outcomes e (deepl_api_key s) src dst 1 doc)) \<and>
    length (progress_calls (run_events (translate_srt e fp out src dst s))) \<le>
      length (filter succeeded (outcomes e (deepl_api_key s) src dst 1 doc)) \<and>
    sorted_wrt (<) (progress_calls (run_events (translate_srt e fp out src dst s))) \<and>
    ((\<forall>n\<in>set (success_numbers 1 (outcomes e (deepl_api_key s) src dst 1 doc)).
         quota_callback_raises e n = None) \<longrightarrow>
       progress_calls (run_events (translate_srt e fp out src dst s)) =
         map (\<lambda>k. of_nat (Suc k) / of_nat (length doc))
           [0 ..< length (filter succeeded (outcomes e (deepl_api_key s) src dst 1 doc))] \<and>
       (list_all succeeded (outcomes e (deepl_api_key s) src dst 1 doc) \<and> doc \<noteq> [] \<longrightarrow>
          translated_count (run_state (translate_srt e fp out src dst s)) = length doc \<and>
          length (progress_calls (run_events (translate_srt e fp out src dst s))) = length doc \<and>
          last (progress_calls (run_events (translate_srt e fp out src dst s))) = 1))"
proof -
  let ?os = "outcomes e (deepl_api_key s) src dst 1 doc"
  let ?ns = "success_numbers 1 ?os"
  let ?S = "length (filter succeeded ?os)"
  let ?r = "translate_srt e fp out src dst s"
  from completed_run[OF assms] obtain s1 subs1 evs where
    loop: "translate_loop e src dst (length doc) 1 doc (s\<lparr>translated_count := 0\<rparr>) =
             (True, s1, subs1, evs)" and
    r: "?r = \<lparr>run_ending = Returned, run_state = s1, run_subtitles = subs1,
        run_events = Log (TotalSubtitles (length doc)) # evs @
          [Save out subs1, Log (FileSaved out), StatusCallback STATUS_TRANSLATION_COMPLETED]\<rparr>"
    by blast
  have cnt: "translated_count (run_state ?r) = ?S"
    using translate_loop_done_count[OF loop] r by simp
  have le: "?S \<le> length doc"
    by (rule count_le)
  have lns: "length ?ns = ?S"
    by (rule length_success_numbers)
  have pc: "progress_calls (run_events ?r) = progress_fractions e (length doc) 0 ?ns"
    using translate_loop_done_progress[OF loop] r
    by (simp add: progress_calls_append del: One_nat_def)
  have len: "length (progress_calls (run_events ?r)) \<le> ?S"
    unfolding pc using length_progress_fractions[of e "length doc" 0 ?ns] lns by simp
  have srt: "sorted_wrt (<) (progress_calls (run_events ?r))"
    unfolding pc using le lns by (intro progress_fractions_sorted) simp
  have quiet: "progress_calls (run_events ?r) =
         map (\<lambda>k. of_nat (Suc k) / of_nat (length doc)) [0 ..< ?S] \<and>
       (list_all succeeded ?os \<and> doc \<noteq> [] \<longrightarrow>
          translated_count (run_state ?r) = length doc \<and>
          length (progress_calls (run_events ?r)) = length doc \<and>
          last (progress_calls (run_events ?r)) = 1)"
    if q: "\<forall>n\<in>set ?ns. quota_callback_raises e n = None"
  proof -
    have all: "progress_calls (run_events ?r) =
         map (\<lambda>k. of_nat (Suc k) / of_nat (length doc)) [0 ..< ?S]"
      unfolding pc using progress_fractions_all[OF q, of "length doc" 0] lns by simp
    have full: "translated_count (run_state ?r) = length doc \<and>
          length (progress_calls (run_events ?r)) = length doc \<and>
          last (progress_calls (run_events ?r)) = 1"
      if "list_all succeeded ?os" "doc \<noteq> []"
    proof -
      from that(1) have "filter succeeded ?os = ?os"
        by (simp add: list_all_iff)
      then have S: "?S = length doc"
        by (simp add: length_outcomes)
      from that(2) have pos: "0 < length doc" by simp
      have "last (progress_calls (run_events ?r)) = 1"
        unfolding all S using pos by (simp add: last_map del: upt_Suc of_nat_Suc)
      with cnt all S show ?thesis by simp
    qed
    from all full show ?thesis by blast
  qed
  from cnt le pc len srt quiet show ?thesis by blast
qed

lemma run_ok:
  "translate_srt env_ok ''film.srt'' ''film.de.srt'' ''EN'' ''DE'' fresh =
     \<lparr>run_ending = Returned,
      run_state = fresh\<lparr>translated_count := 3, used_quota := 20\<rparr>,
      run_subtitles =
        [\<lparr>index = 1, start = 0, end' = 1000, text' = Str ''de:one''\<rparr>,
         \<lparr>index = 2, start = 1000, end' = 2000, text' = Str ''de:two''\<rparr>,
         \<lparr>index = 3, start = 2000, end' = 3000, text' = Str ''de:three''\<rparr>],
      run_events =
        [Log (TotalSubtitles 3),
         Post \<lparr>auth_key = Some ''secret'', req_text = Str ''one'', source_lang = ''EN'', target_lang = ''DE''\<rparr>,
         QuotaCallback 6, ProgressCallback (1 / 3), Sleep SLEEP_TIME,
         Post \<lparr>auth_key = Some ''secret'', req_text = Str ''two'', source_lang = ''EN'', target_lang = ''DE''\<rparr>,
         QuotaCallback 12, ProgressCallback (2 / 3), Sleep SLEEP_TIME,
         Post \<lparr>auth_key = Some ''secret'', req_text = Str ''three'', source_lang = ''EN'', target_lang = ''DE''\<rparr>,
         QuotaCallback 20, ProgressCallback 1, Sleep SLEEP_TIME,
         Save ''film.de.srt''
           [\<lparr>index = 1, start = 0, end' = 1000, text' = Str ''de:one''\<rparr>,
            \<lparr>index = 2, start = 1000, end' = 2000, text' = Str ''de:two''\<rparr>,
            \<lparr>index = 3, start = 2000, end' = 3000, text' = Str ''de:three''\<rparr>],
         Log (FileSaved ''film.de.srt''),
         StatusCallback STATUS_TRANSLATION_COMPLETED]\<rparr>"
  by (simp add: translate_srt_def srt_film env_ok_def doc3_def fresh_def Translator_init_def
        attempt_entry_def other_thread_def form_data_def)

lemma completed_ok:
  "completed (translate_srt env_ok ''film.srt'' ''film.de.srt'' ''EN'' ''DE'' fresh)"
  by (simp add: run_ok completed_def)

lemma opened_ok: "pysrt_open env_ok ''film.srt'' = Some doc3"
  by (simp add: env_ok_def)

lemma outcomes_ok:
  "outcomes env_ok (Some ''secret'') ''EN'' ''DE'' (Suc 0) doc3 =
     [Returns (Str ''de:one''), Returns (Str ''de:two''), Returns (Str ''de:three'')]"
  by (simp add: env_ok_def doc3_def form_data_def)

lemma run_quota2:
  "translate_srt env_quota2 ''film.srt'' ''film.de.srt'' ''EN'' ''DE'' fresh =
     \<lparr>run_ending = Returned,
      run_state = fresh\<lparr>translated_count := 3, used_quota := 20\<rparr>,
      run_subtitles =
        [\<lparr>index = 1, start = 0, end' = 1000, text' = Str ''de:one''\<rparr>,
         \<lparr>index = 2, start = 1000, end' = 2000, text' = Str ''de:two''\<rparr>,
         \<lparr>index = 3, start = 2000, end' = 3000, text' = Str ''de:three''\<rparr>],
      run_events =
        [Log (TotalSubtitles 3),
         Post \<lparr>auth_key = Some ''secret'', req_text = Str ''one'', source_lang = ''EN'', target_lang = ''DE''\<rparr>,
         QuotaCallback 6, ProgressCallback (1 / 3), Sleep SLEEP_TIME,
         Post \<lparr>auth_key = Some ''secret'', req_text = Str ''two'', source_lang = ''EN'', target_lang = ''DE''\<rparr>,
         QuotaCallback 12, Log (ErrorOccurred OtherException),
         Post \<lparr>auth_key = Some ''secret'', req_text = Str ''three'', source_lang = ''EN'', target_lang = ''DE''\<rparr>,
         QuotaCallback 20, ProgressCallback 1, Sleep SLEEP_TIME,
         Save ''film.de.srt''
           [\<lparr>index = 1, start = 0, end' = 1000, text' = Str ''de:one''\<rparr>,
            \<lparr>index = 2, start = 1000, end' = 2000, text' = Str ''de:two''\<rparr>,
            \<lparr>index = 3, start = 2000, end' = 3000, text' = Str ''de:three''\<rparr>],
         Log (FileSaved ''film.de.srt''),
         StatusCallback STATUS_TRANSLATION_COMPLETED]\<rparr>"
  by (simp add: translate_srt_def srt_film env_quota2_def doc3_def fresh_def Translator_init_def
        attempt_entry_def other_thread_def form_data_def)

lemma completed_quota2:
  "completed (translate_srt env_quota2 ''film.srt'' ''film.de.srt'' ''EN'' ''DE'' fresh)"
  by (simp add: run_quota2 completed_def)

lemma opened_quota2: "pysrt_open env_quota2 ''film.srt'' = Some doc3"
  by (simp add: env_quota2_def)

lemma outcomes_quota2:
  "outcomes env_quota2 (Some ''secret'') ''EN'' ''DE'' (Suc 0) doc3 =
     [Returns (Str ''de:one''), Returns (Str ''de:two''), Returns (Str ''de:three'')]"
  by (simp add: env_quota2_def doc3_def form_data_def)

text \<open>The amended C3 on two 3-entry runs in which every request succeeds: one in which
  the quota callback raises at the second entry, and one in which it never raises.\<close>

theorem C3_progress_follows_successes_witness:
  "translated_count
     (run_state (translate_srt env_quota2 ''film.srt'' ''film.de.srt'' ''EN'' ''DE'' fresh)) = 3 \<and>
   progress_calls
     (run_events (translate_srt env_quota2 ''film.srt'' ''film.de.srt'' ''EN'' ''DE'' fresh)) =
     [1 / 3, 1] \<and>
   list_all succeeded (outcomes env_ok (deepl_api_key fresh) ''EN'' ''DE'' 1 doc3) \<and>
   doc3 \<noteq> [] \<and>
   translated_count
     (run_state (translate_srt env_ok ''film.srt'' ''film.de.srt'' ''EN'' ''DE'' fresh)) = 3 \<and>
   progress_calls
     (run_events (translate_srt env_ok ''film.srt'' ''film.de.srt'' ''EN'' ''DE'' fresh)) =
     [1 / 3, 2 / 3, 1] \<and>
   last (progress_calls
     (run_events (translate_srt env_ok ''film.srt'' ''film.de.srt'' ''EN'' ''DE'' fresh))) = 1"
proof -
  have all: "list_all succeeded (outcomes env_ok (deepl_api_key fresh) ''EN'' ''DE'' 1 doc3)"
    by (simp add: key_fresh outcomes_ok)
  have ne: "doc3 \<noteq> []" and len: "length doc3 = 3"
    by (simp_all add: doc3_def)
  have S: "length (filter succeeded (outcomes env_ok (deepl_api_key fresh) ''EN'' ''DE'' 1 doc3)) = 3"
    by (simp add: key_fresh outcomes_ok)
  have q: "\<forall>n\<in>set (success_numbers 1 (outcomes env_ok (deepl_api_key fresh) ''EN'' ''DE'' 1 doc3)).
      quota_callback_raises env_ok n = None"
    by (simp add: env_ok_def)
  have upt: "[0..<3] = [0, 1, Suc 1]"
    by (simp add: upt_rec)
  from C3_progress_follows_successes[OF completed_ok opened_ok] q
  have "translated_count
       (run_state (translate_srt env_ok ''film.srt'' ''film.de.srt'' ''EN'' ''DE'' fresh)) =
       length (filter succeeded (outcomes env_ok (deepl_api_key fresh) ''EN'' ''DE'' 1 doc3)) \<and>
     progress_calls
       (run_events (translate_srt env_ok ''film.srt'' ''film.de.srt'' ''EN'' ''DE'' fresh)) =
       map (\<lambda>k. of_nat (Suc k) / of_nat (length doc3))
         [0 ..< length (filter succeeded (outcomes env_ok (deepl_api_key fresh) ''EN'' ''DE'' 1 doc3))] \<and>
     (list_all succeeded (outcomes env_ok (deepl_api_key fresh) ''EN'' ''DE'' 1 doc3) \<and> doc3 \<noteq> [] \<longrightarrow>
       last (progress_calls
         (run_events (translate_srt env_ok ''film.srt'' ''film.de.srt'' ''EN'' ''DE'' fresh))) = 1)"
    by blast
  with all ne
  have ok: "translated_count
       (run_state (translate_srt env_ok ''film.srt'' ''film.de.srt'' ''EN'' ''DE'' fresh)) = 3 \<and>
     progress_calls
       (run_events (translate_srt env_ok ''film.srt'' ''film.de.srt'' ''EN'' ''DE'' fresh)) =
       [1 / 3, 2 / 3, 1] \<and>
     last (progress_calls
       (run_events (translate_srt env_ok ''film.srt'' ''film.de.srt'' ''EN'' ''DE'' fresh))) = 1"
    unfolding S len upt by simp
  have ns: "success_numbers 1 (outcomes env_quota2 (deepl_api_key fresh) ''EN'' ''DE'' 1 doc3) =
      [1, 2, 3]"
    by (simp add: key_fresh outcomes_quota2 success_numbers_def enumerate_eq_zip upt_rec)
  have pf: "progress_fractions env_quota2 3 0 [1, 2, 3] = [1 / 3, 1]"
    by (simp add: progress_fractions_Cons progress_fractions_Nil env_quota2_def)
  from C3_progress_follows_successes[OF completed_quota2 opened_quota2]
  have "translated_count
       (run_state (translate_srt env_quota2 ''film.srt'' ''film.de.srt'' ''EN'' ''DE'' fresh)) = 3 \<and>
     progress_calls
       (run_events (translate_srt env_quota2 ''film.srt'' ''film.de.srt'' ''EN'' ''DE'' fresh)) =
       [1 / 3, 1]"
    unfolding ns len pf by (simp add: key_fresh outcomes_quota2)
  with ok all ne show ?thesis by simp
qed

subsection \<open>C4: the empty document\<close>

lemma run_empty:
  "translate_srt env_empty ''film.srt'' ''film.de.srt'' ''EN'' ''DE'' fresh =
     \<lparr>run_ending = Returned, run_state = fresh\<lparr>translated_count := 0\<rparr>, run_subtitles = [],
      run_events = [Log (TotalSubtitles 0), Save ''film.de.srt'' [],
        Log (FileSaved ''film.de.srt''), StatusCallback STATUS_TRANSLATION_COMPLETED]\<rparr>"
  by (simp add: translate_srt_def srt_film env_empty_def)

text \<open>
  C4 as the specification states it: for the empty document a run makes no network call,
  reports progress 1.0 through the progress callback and reports the status Completed.
  On the code the progress callback is never called for the empty document.
\<close>

theorem C4_counterexample:
  "pysrt_open env_empty ''film.srt'' = Some [] \<and>
   progress_calls
     (run_events (translate_srt env_empty ''film.srt'' ''film.de.srt'' ''EN'' ''DE'' fresh)) = []"
  by (simp add: run_empty) (simp add: env_empty_def)

text \<open>
  C4 as amended: for the empty document a run posts no request, never calls the progress
  callback, saves the empty document to the output path and reports the status
  \<^verbatim>\<open>STATUS_TRANSLATION_COMPLETED\<close> through the status callback; \<open>translated_count\<close> is 0.
\<close>

theorem C4_empty_document:
  assumes "lower (splitext_ext fp) = ''.srt''" "pysrt_open e fp = Some []"
  shows "translate_srt e fp out src dst s =
      \<lparr>run_ending = Returned, run_state = s\<lparr>translated_count := 0\<rparr>, run_subtitles = [],
       run_events = [Log (TotalSubtitles 0), Save out [], Log (FileSaved out),
         StatusCallback STATUS_TRANSLATION_COMPLETED]\<rparr> \<and>
    posts (run_events (translate_srt e fp out src dst s)) = [] \<and>
    progress_calls (run_events (translate_srt e fp out src dst s)) = [] \<and>
    saves (run_events (translate_srt e fp out src dst s)) = [(out, [])] \<and>
    status_calls (run_events (translate_srt e fp out src dst s)) = [STATUS_TRANSLATION_COMPLETED]"
  using assms by (simp add: translate_srt_def)

text \<open>The amended C4 on the run over a file without entries.\<close>

theorem C4_empty_document_witness:
  "posts (run_events (translate_srt env_empty ''film.srt'' ''film.de.srt'' ''EN'' ''DE'' fresh)) = [] \<and>
   progress_calls
     (run_events (translate_srt env_empty ''film.srt'' ''film.de.srt'' ''EN'' ''DE'' fresh)) = [] \<and>
   status_calls
     (run_events (translate_srt env_empty ''film.srt'' ''film.de.srt'' ''EN'' ''DE'' fresh)) =
     [STATUS_TRANSLATION_COMPLETED]"
proof -
  have "pysrt_open env_empty ''film.srt'' = Some []"
    by (simp add: env_empty_def)
  from C4_empty_document[OF srt_film this] show ?thesis
    by simp
qed

subsection \<open>C5: the quota used\<close>

lemma characters_written:
  "length os = length subs \<Longrightarrow>
     map2 (\<lambda>a sub'. if succeeded a then size_of (text' sub') else 0) os (map2 written os subs) =
     map characters os"
proof (induction os subs rule: list_induct2)
  case Nil
  then show ?case by simp
next
  case (Cons a os sub subs)
  then show ?case by (cases a) (auto simp: size_of_def)
qed

text \<open>
  C5 as the specification states it: after a completed run, \<open>used_quota\<close> equals the sum,
  over the entries whose translation succeeded, of the length of the translated text
  written into the entry. On the code this is false for a second run of the same object:
  \<open>used_quota\<close> is set to 0 by \<^verbatim>\<open>__init__\<close> only, so after the run \<open>env_fail2\<close> has
  been made twice it is 28, while the sum for the (second) run is 14.
\<close>

theorem C5_counterexample:
  "completed (translate_srt env_fail2 ''film.srt'' ''film.de.srt'' ''EN'' ''DE''
      (run_state (translate_srt env_fail2 ''film.srt'' ''film.de.srt'' ''EN'' ''DE'' fresh))) \<and>
   used_quota (run_state (translate_srt env_fail2 ''film.srt'' ''film.de.srt'' ''EN'' ''DE''
      (run_state (translate_srt env_fail2 ''film.srt'' ''film.de.srt'' ''EN'' ''DE'' fresh)))) = 28 \<and>
   translated_characters
      (outcomes env_fail2 (deepl_api_key fresh) ''EN'' ''DE'' 1 doc3)
      (run_subtitles (translate_srt env_fail2 ''film.srt'' ''film.de.srt'' ''EN'' ''DE''
         (run_state (translate_srt env_fail2 ''film.srt'' ''film.de.srt'' ''EN'' ''DE'' fresh)))) = 14"
proof -
  have second:
    "translate_srt env_fail2 ''film.srt'' ''film.de.srt'' ''EN'' ''DE''
       (fresh\<lparr>translated_count := 2, used_quota := 14\<rparr>) =
     \<lparr>run_ending = Returned,
      run_state = fresh\<lparr>translated_count := 2, used_quota := 28\<rparr>,
      run_subtitles =
        [\<lparr>index = 1, start = 0, end' = 1000, text' = Str ''de:one''\<rparr>,
         \<lparr>index = 2, start = 1000, end' = 2000, text' = Str ''two''\<rparr>,
         \<lparr>index = 3, start = 2000, end' = 3000, text' = Str ''de:three''\<rparr>],
      run_events =
        [Log (TotalSubtitles 3),
         Post \<lparr>auth_key = Some ''secret'', req_text = Str ''one'', source_lang = ''EN'', target_lang = ''DE''\<rparr>,
         QuotaCallback 20, ProgressCallback (1 / 3), Sleep SLEEP_TIME,
         Post \<lparr>auth_key = Some ''secret'', req_text = Str ''two'', source_lang = ''EN'', target_lang = ''DE''\<rparr>,
         Log (ErrorOccurred HTTPError),
         Post \<lparr>auth_key = Some ''secret'', req_text = Str ''three'', source_lang = ''EN'', target_lang = ''DE''\<rparr>,
         QuotaCallback 28, ProgressCallback (2 / 3), Sleep SLEEP_TIME,
         Save ''film.de.srt''
           [\<lparr>index = 1, start = 0, end' = 1000, text' = Str ''de:one''\<rparr>,
            \<lparr>index = 2, start = 1000, end' = 2000, text' = Str ''two''\<rparr>,
            \<lparr>index = 3, start = 2000, end' = 3000, text' = Str ''de:three''\<rparr>],
         Log (FileSaved ''film.de.srt''),
         StatusCallback STATUS_TRANSLATION_COMPLETED]\<rparr>"
    by (simp add: translate_srt_def srt_film env_fail2_def doc3_def fresh_def Translator_init_def
        attempt_entry_def other_thread_def form_data_def)
  show ?thesis
    by (simp add: run_fail2 second completed_def key_fresh outcomes_fail2
          translated_characters_def size_of_def)
qed

text \<open>
  C5 as amended: after a completed run, \<open>used_quota\<close> equals its value before the run plus
  the sum, over the entries whose translation succeeded, of the length of the translated
  text written into the entry (so it equals that sum for the first run of a fresh
  object); entries whose translation failed keep their text and add nothing.
\<close>

theorem C5_used_quota_accumulates:
  assumes "completed (translate_srt e fp out src dst s)" "pysrt_open e fp = Some doc"
  shows "used_quota (run_state (translate_srt e fp out src dst s)) =
      used_quota s +
      translated_characters (outcomes e (deepl_api_key s) src dst 1 doc)
        (run_subtitles (translate_srt e fp out src dst s)) \<and>
    run_subtitles (translate_srt e fp out src dst s) =
      map2 written (outcomes e (deepl_api_key s) src dst 1 doc) doc"
proof -
  let ?os = "outcomes e (deepl_api_key s) src dst 1 doc"
  let ?r = "translate_srt e fp out src dst s"
  from completed_run[OF assms] obtain s1 subs1 evs where
    loop: "translate_loop e src dst (length doc) 1 doc (s\<lparr>translated_count := 0\<rparr>) =
             (True, s1, subs1, evs)" and
    r: "run_state ?r = s1" "run_subtitles ?r = subs1"
    by force
  have subs: "run_subtitles ?r = map2 written ?os doc"
    using translate_loop_done_subtitles[OF loop] r by simp
  have "used_quota (run_state ?r) = used_quota s + sum_list (map characters ?os)"
    using translate_loop_done_quota[OF loop] r by simp
  also have "map characters ?os =
      map2 (\<lambda>a sub'. if succeeded a then size_of (text' sub') else 0) ?os (map2 written ?os doc)"
    by (rule characters_written[symmetric]) (simp add: length_outcomes)
  finally show ?thesis
    using subs by (simp add: translated_characters_def)
qed

text \<open>The amended C5 on the 3-entry run whose second request fails.\<close>

theorem C5_used_quota_accumulates_witness:
  "used_quota (run_state (translate_srt env_fail2 ''film.srt'' ''film.de.srt'' ''EN'' ''DE'' fresh)) =
     used_quota fresh + 14"
  using C5_used_quota_accumulates[OF completed_fail2 opened_fail2]
  by (simp add: key_fresh outcomes_fail2 translated_characters_def) (simp add: doc3_def size_of_def)

subsection \<open>C6: failures are absorbed by the loop\<close>

lemma outcomes_nth:
  "j < length subs \<Longrightarrow>
     outcomes e key src dst i subs ! j = deepl e (i + j) (form_data key src dst (subs ! j))"
proof (induction subs arbitrary: i j)
  case Nil
  then show ?case by simp
next
  case (Cons sub subs)
  then show ?case by (cases j) simp_all
qed

lemma run_null2:
  "translate_srt env_null2 ''film.srt'' ''film.de.srt'' ''EN'' ''DE'' fresh =
     \<lparr>run_ending = Returned,
      run_state = fresh\<lparr>translated_count := 2, used_quota := 14\<rparr>,
      run_subtitles =
        [\<lparr>index = 1, start = 0, end' = 1000, text' = Str ''de:one''\<rparr>,
         \<lparr>index = 2, start = 1000, end' = 2000, text' = PyNone\<rparr>,
         \<lparr>index = 3, start = 2000, end' = 3000, text' = Str ''de:three''\<rparr>],
      run_events =
        [Log (TotalSubtitles 3),
         Post \<lparr>auth_key = Some ''secret'', req_text = Str ''one'', source_lang = ''EN'', target_lang = ''DE''\<rparr>,
         QuotaCallback 6, ProgressCallback (1 / 3), Sleep SLEEP_TIME,
         Post \<lparr>auth_key = Some ''secret'', req_text = Str ''two'', source_lang = ''EN'', target_lang = ''DE''\<rparr>,
         Log (ErrorOccurred OtherException),
         Post \<lparr>auth_key = Some ''secret'', req_text = Str ''three'', source_lang = ''EN'', target_lang = ''DE''\<rparr>,
         QuotaCallback 14, ProgressCallback (2 / 3), Sleep SLEEP_TIME,
         Save ''film.de.srt''
           [\<lparr>index = 1, start = 0, end' = 1000, text' = Str ''de:one''\<rparr>,
            \<lparr>index = 2, start = 1000, end' = 2000, text' = PyNone\<rparr>,
            \<lparr>index = 3, start = 2000, end' = 3000, text' = Str ''de:three''\<rparr>],
         Log (FileSaved ''film.de.srt''),
         StatusCallback STATUS_TRANSLATION_COMPLETED]\<rparr>"
  by (simp add: translate_srt_def srt_film env_null2_def doc3_def fresh_def Translator_init_def
        attempt_entry_def other_thread_def form_data_def)

text \<open>
  C6 as the specification states it: for every entry whose translation fails with any of
  the three failure kinds, an unexpected error among them, no exception leaves the loop,
  the entry's text is left unchanged, the loop goes on and the error callback is not
  called. On the code the text is not always left unchanged: in the run \<open>env_null2\<close> the
  answer for the second entry carries \<^verbatim>\<open>null\<close> as its text; the value is assigned to the
  entry, \<^verbatim>\<open>len\<close> of it raises, the last \<^verbatim>\<open>except\<close> clause logs an unexpected error, and the
  entry is saved with the new value in place of its text.
\<close>

theorem C6_counterexample:
  "succeeded (outcomes env_null2 (deepl_api_key fresh) ''EN'' ''DE'' 1 doc3 ! 1) = False \<and>
   run_events (translate_srt env_null2 ''film.srt'' ''film.de.srt'' ''EN'' ''DE'' fresh) ! 6 =
     Log (ErrorOccurred OtherException) \<and>
   text' (doc3 ! 1) = Str ''two'' \<and>
   text' (run_subtitles
     (translate_srt env_null2 ''film.srt'' ''film.de.srt'' ''EN'' ''DE'' fresh) ! 1) = PyNone \<and>
   saves (run_events (translate_srt env_null2 ''film.srt'' ''film.de.srt'' ''EN'' ''DE'' fresh)) =
     [(''film.de.srt'',
       run_subtitles (translate_srt env_null2 ''film.srt'' ''film.de.srt'' ''EN'' ''DE'' fresh))]"
proof -
  have "outcomes env_null2 (deepl_api_key fresh) ''EN'' ''DE'' 1 doc3 ! 1 = Returns PyNone"
    by (simp add: key_fresh env_null2_def doc3_def form_data_def)
  moreover have "text' (doc3 ! 1) = Str ''two''"
    by (simp add: doc3_def)
  ultimately show ?thesis
    by (simp add: run_null2)
qed

text \<open>
  C6 as amended: whatever raises inside the \<^verbatim>\<open>try\<close> statement (the request, the status
  check, the decoding, \<^verbatim>\<open>len\<close>, a callback called there), no exception leaves the loop,
  the loop goes on with the next entry and the error callback is not called; and the
  entry's text is left unchanged when the request, the status check or the decoding
  raises, that is, before a value has been assigned to the entry. Stated for a run that
  nobody stops, over a file that opens: the call returns and is completed, however many
  attempts fail; the request of every entry has been posted, in order; the document is
  saved; every entry whose request, status check or decoding raised is as it was read;
  and \<^verbatim>\<open>error_callback\<close> was never called.
\<close>

theorem C6_failures_are_absorbed:
  assumes "lower (splitext_ext fp) = ''.srt''" "pysrt_open e fp = Some doc"
    "\<not> should_stop s" "\<forall>i. \<not> stop_pressed e i"
  shows "run_ending (translate_srt e fp out src dst s) = Returned \<and>
    completed (translate_srt e fp out src dst s) \<and>
    saves (run_events (translate_srt e fp out src dst s)) =
      [(out, run_subtitles (translate_srt e fp out src dst s))] \<and>
    posts (run_events (translate_srt e fp out src dst s)) =
      map (form_data (deepl_api_key s) src dst) doc \<and>
    length (run_subtitles (translate_srt e fp out src dst s)) = length doc \<and>
    (\<forall>j<length doc. \<forall>err.
       deepl e (Suc j) (form_data (deepl_api_key s) src dst (doc ! j)) = Raises err \<longrightarrow>
       run_subtitles (translate_srt e fp out src dst s) ! j = doc ! j) \<and>
    error_calls (run_events (translate_srt e fp out src dst s)) = []"
proof -
  let ?r = "translate_srt e fp out src dst s"
  let ?os = "outcomes e (deepl_api_key s) src dst 1 doc"
  have comp: "completed ?r"
    by (rule not_stopped_run[OF assms])
  from completed_run[OF comp assms(2)] obtain s1 subs1 evs where
    loop: "translate_loop e src dst (length doc) 1 doc (s\<lparr>translated_count := 0\<rparr>) =
             (True, s1, subs1, evs)" and
    r: "?r = \<lparr>run_ending = Returned, run_state = s1, run_subtitles = subs1,
        run_events = Log (TotalSubtitles (length doc)) # evs @
          [Save out subs1, Log (FileSaved out), StatusCallback STATUS_TRANSLATION_COMPLETED]\<rparr>"
    by blast
  note f = translate_loop_fields[OF loop]
  have subs: "subs1 = map2 written ?os doc"
    using translate_loop_done_subtitles[OF loop] by simp
  have p: "posts evs = map (form_data (deepl_api_key s) src dst) doc"
    using translate_loop_done_posts[OF loop] by simp
  have unchanged: "subs1 ! j = doc ! j"
    if "j < length doc" "deepl e (Suc j) (form_data (deepl_api_key s) src dst (doc ! j)) = Raises err"
    for j err
    using that by (simp add: subs length_outcomes outcomes_nth)
  show ?thesis
    using comp f p unchanged by (simp add: r posts_append saves_append error_calls_append)
qed

text \<open>C6 on the 3-entry run whose second request fails.\<close>

theorem C6_failures_are_absorbed_witness:
  "deepl env_fail2 2 (form_data (deepl_api_key fresh) ''EN'' ''DE'' (doc3 ! 1)) = Raises HTTPError \<and>
   completed (translate_srt env_fail2 ''film.srt'' ''film.de.srt'' ''EN'' ''DE'' fresh) \<and>
   run_subtitles (translate_srt env_fail2 ''film.srt'' ''film.de.srt'' ''EN'' ''DE'' fresh) ! 1 =
     doc3 ! 1 \<and>
   error_calls (run_events (translate_srt env_fail2 ''film.srt'' ''film.de.srt'' ''EN'' ''DE'' fresh)) = []"
proof -
  have ns: "\<not> should_stop fresh"
    by (simp add: fresh_def Translator_init_def)
  have np: "\<forall>i. \<not> stop_pressed env_fail2 i"
    by (simp add: env_fail2_def)
  have fails: "deepl env_fail2 (Suc 1)
      (form_data (deepl_api_key fresh) ''EN'' ''DE'' (doc3 ! 1)) = Raises HTTPError"
    by (simp add: env_fail2_def)
  have len: "1 < length doc3"
    by (simp add: doc3_def)
  from C6_failures_are_absorbed[OF srt_film opened_fail2 ns np, of "''film.de.srt''" "''EN''" "''DE''"]
    fails len
  show ?thesis
    by (auto simp: env_fail2_def)
qed

subsection \<open>C7: starting without a credential\<close>

lemma no_api_key_iff:
  "no_api_key key \<longleftrightarrow> key = None \<or> (\<exists>k. key = Some k \<and> list_all isspace k)"
  by (cases key) (auto simp: no_api_key_def strip_empty_iff)

text \<open>
  C7: if \<open>deepl_api_key\<close> is absent or consists of whitespace only, \<^verbatim>\<open>start_translation\<close>
  reports the missing credential through the error callback and returns: the object is
  unchanged, so nothing was submitted to the executor and no future was recorded.
\<close>

theorem C7_missing_credential:
  assumes "deepl_api_key s = None \<or> (\<exists>k. deepl_api_key s = Some k \<and> list_all isspace k)"
  shows "start_translation fp out src dst s =
      (s, [ErrorCallback ''No API key found. Please provide a valid DeepL API Key.'']) \<and>
    executor (fst (start_translation fp out src dst s)) = executor s \<and>
    current_translation (fst (start_translation fp out src dst s)) = current_translation s"
proof -
  from assms have "no_api_key (deepl_api_key s)"
    by (simp add: no_api_key_iff)
  then show ?thesis
    by (simp add: start_translation_def)
qed

text \<open>C7 on an object whose credential is two blanks.\<close>

theorem C7_missing_credential_witness:
  "list_all isspace ''  '' \<and>
   start_translation ''film.srt'' ''film.de.srt'' ''EN'' ''DE'' (Translator_init (Some ''  '') 4) =
     (Translator_init (Some ''  '') 4,
      [ErrorCallback ''No API key found. Please provide a valid DeepL API Key.'']) \<and>
   futures (executor (fst (start_translation ''film.srt'' ''film.de.srt'' ''EN'' ''DE''
      (Translator_init (Some ''  '') 4)))) = []"
proof -
  have sp: "list_all isspace ''  ''"
    by (simp add: isspace_def)
  have key: "deepl_api_key (Translator_init (Some ''  '') 4) = Some ''  ''"
    by (simp add: Translator_init_def)
  have "deepl_api_key (Translator_init (Some ''  '') 4) = None \<or>
     (\<exists>k. deepl_api_key (Translator_init (Some ''  '') 4) = Some k \<and> list_all isspace k)"
    using sp key by blast
  from C7_missing_credential[OF this, of "''film.srt''" "''film.de.srt''" "''EN''" "''DE''"] sp
  show ?thesis
    by (simp add: Translator_init_def ThreadPoolExecutor_def)
qed

subsection \<open>C8: the pause between requests\<close>

text \<open>
  C8 says that the pause \<^verbatim>\<open>SLEEP_TIME\<close> follows every attempt, failed or not. In the run
  \<open>env_fail2\<close> the request of the second entry fails and the request of the third entry
  is posted straight after the error is logged: the \<^verbatim>\<open>continue\<close> of the \<^verbatim>\<open>except\<close> clause
  jumps over the \<^verbatim>\<open>time.sleep(SLEEP_TIME)\<close> that follows the \<^verbatim>\<open>try\<close> statement.
\<close>

theorem C8_no_sleep_after_failed_attempt:
  "run_events (translate_srt env_fail2 ''film.srt'' ''film.de.srt'' ''EN'' ''DE'' fresh) =
     [Log (TotalSubtitles 3),
      Post \<lparr>auth_key = Some ''secret'', req_text = Str ''one'', source_lang = ''EN'', target_lang = ''DE''\<rparr>,
      QuotaCallback 6, ProgressCallback (1 / 3), Sleep SLEEP_TIME,
      Post \<lparr>auth_key = Some ''secret'', req_text = Str ''two'', source_lang = ''EN'', target_lang = ''DE''\<rparr>,
      Log (ErrorOccurred HTTPError),
      Post \<lparr>auth_key = Some ''secret'', req_text = Str ''three'', source_lang = ''EN'', target_lang = ''DE''\<rparr>,
      QuotaCallback 14, ProgressCallback (2 / 3), Sleep SLEEP_TIME,
      Save ''film.de.srt''
        [\<lparr>index = 1, start = 0, end' = 1000, text' = Str ''de:one''\<rparr>,
         \<lparr>index = 2, start = 1000, end' = 2000, text' = Str ''two''\<rparr>,
         \<lparr>index = 3, start = 2000, end' = 3000, text' = Str ''de:three''\<rparr>],
      Log (FileSaved ''film.de.srt''),
      StatusCallback STATUS_TRANSLATION_COMPLETED]"
  by (simp add: run_fail2)

subsection \<open>C9: starting while a job is running\<close>

lemma valid_key: "\<not> no_api_key (Some ''secret'')"
  by (simp add: no_api_key_def strip_def isspace_def)

text \<open>
  C9 as the specification states it: while a job is running, a second call of
  \<^verbatim>\<open>start_translation\<close> with a valid credential and an \<^verbatim>\<open>.srt\<close> path is rejected or does
  nothing. On the code this is false: after one call on a fresh object with four workers
  one job is running, and after a second call two jobs are running.
\<close>

theorem C9_counterexample:
  "running_jobs (executor (fst (start_translation ''film.srt'' ''film.de.srt'' ''EN'' ''DE'' fresh)))
     = [film_job] \<and>
   running_jobs (executor (fst (start_translation ''film.srt'' ''film.de.srt'' ''EN'' ''DE''
     (fst (start_translation ''film.srt'' ''film.de.srt'' ''EN'' ''DE'' fresh)))))
     = [film_job, film_job]"
  by (simp add: start_translation_def fresh_def Translator_init_def valid_key srt_film
        submit_def running_jobs_def ThreadPoolExecutor_def film_job_def)

text \<open>
  C9 as amended: in every state of the object, a running job or not, a call of
  \<^verbatim>\<open>start_translation\<close> with a valid credential and an \<^verbatim>\<open>.srt\<close> path clears the stop
  flag, submits a new job to the executor, records its future as \<open>current_translation\<close>
  and reports \<^verbatim>\<open>Translation started\<close>; the new job runs at once, next to the running
  ones, whenever fewer than \<open>max_workers\<close> jobs are running.
\<close>

theorem C9_start_always_submits:
  assumes "\<not> no_api_key (deepl_api_key s)" "lower (splitext_ext fp) = ''.srt''"
  shows "start_translation fp out src dst s =
      (s\<lparr>should_stop := False,
         executor := (executor s)\<lparr>futures := futures (executor s) @
           [(\<lparr>job_file_path = fp, job_output_path = out, job_src_lang = src, job_dest_lang = dst\<rparr>,
             if length (running_jobs (executor s)) < max_workers (executor s)
             then Running else Pending)]\<rparr>,
         current_translation := Some (length (futures (executor s)))\<rparr>,
       [StatusCallback ''Translation started'']) \<and>
    (length (running_jobs (executor s)) < max_workers (executor s) \<longrightarrow>
       running_jobs (executor (fst (start_translation fp out src dst s))) =
         running_jobs (executor s) @
         [\<lparr>job_file_path = fp, job_output_path = out, job_src_lang = src, job_dest_lang = dst\<rparr>])"
  using assms by (simp add: start_translation_def submit_def running_jobs_def)

lemma started_once:
  "fst (start_translation ''film.srt'' ''film.de.srt'' ''EN'' ''DE'' fresh) =
     fresh\<lparr>executor := \<lparr>max_workers = 4, futures = [(film_job, Running)]\<rparr>,
           current_translation := Some 0\<rparr>"
  by (simp add: start_translation_def fresh_def Translator_init_def valid_key srt_film
        submit_def running_jobs_def ThreadPoolExecutor_def film_job_def)

text \<open>The amended C9 on the object that is already running one job.\<close>

theorem C9_start_always_submits_witness:
  "running_jobs (executor (fst (start_translation ''film.srt'' ''film.de.srt'' ''EN'' ''DE'' fresh)))
     = [film_job] \<and>
   futures (executor (fst (start_translation ''other.srt'' ''other.de.srt'' ''EN'' ''DE''
     (fst (start_translation ''film.srt'' ''film.de.srt'' ''EN'' ''DE'' fresh))))) =
     [(film_job, Running),
      (\<lparr>job_file_path = ''other.srt'', job_output_path = ''other.de.srt'',
        job_src_lang = ''EN'', job_dest_lang = ''DE''\<rparr>, Running)]"
proof -
  let ?s = "fst (start_translation ''film.srt'' ''film.de.srt'' ''EN'' ''DE'' fresh)"
  have key: "\<not> no_api_key (deepl_api_key ?s)"
    by (simp add: started_once key_fresh valid_key)
  have ext: "lower (splitext_ext ''other.srt'') = ''.srt''"
    by code_simp
  have free: "length (running_jobs (executor ?s)) < max_workers (executor ?s)"
    by (simp add: started_once running_jobs_def)
  from C9_start_always_submits[OF key ext, of "''other.de.srt''" "''EN''" "''DE''"] free
  show ?thesis
    by (simp add: started_once running_jobs_def)
qed

subsection \<open>C10: the quota is never enforced\<close>

lemma start_translation_quota: "quota (fst (start_translation fp out src dst s)) = quota s"
  by (simp add: start_translation_def Let_def split: prod.splits)

lemma stop_translation_quota: "quota (fst (stop_translation s)) = quota s"
  by (simp add: stop_translation_def Let_def split: option.splits)

lemma translate_srt_quota: "quota (run_state (translate_srt e fp out src dst s)) = quota s"
proof (cases "lower (splitext_ext fp) = ''.srt''")
  case False
  then show ?thesis by (simp add: translate_srt_def)
next
  case True
  show ?thesis
  proof (cases "pysrt_open e fp")
    case None
    with True show ?thesis by (simp add: translate_srt_def)
  next
    case (Some doc)
    obtain d s1 subs1 evs where
      loop: "translate_loop e src dst (length doc) 1 doc (s\<lparr>translated_count := 0\<rparr>) = (d, s1, subs1, evs)"
      by (metis prod_cases4)
    from translate_srt_opened[OF True Some loop] translate_loop_fields[OF loop]
    show ?thesis by simp
  qed
qed

lemma reachable_quota: "reachable s \<Longrightarrow> quota s = 500000"
proof (induction rule: reachable.induct)
  case (init key num_threads)
  then show ?case by (simp add: Translator_init_def)
next
  case (start s file_path output_path src_lang dest_lang)
  then show ?case by (simp add: start_translation_quota)
next
  case (stop s)
  then show ?case by (simp add: stop_translation_quota)
next
  case (run s e file_path output_path src_lang dest_lang)
  then show ?case by (simp add: translate_srt_quota)
next
  case (assign_key s key)
  then show ?case by simp
next
  case (assign_executor s n)
  then show ?case by simp
qed

lemma same_but_quota_run:
  assumes "same_but_quota s t"
  shows "run_ending (translate_srt e fp out src dst t) = run_ending (translate_srt e fp out src dst s) \<and>
    run_subtitles (translate_srt e fp out src dst t) = run_subtitles (translate_srt e fp out src dst s) \<and>
    map forget_quota (run_events (translate_srt e fp out src dst t)) =
      map forget_quota (run_events (translate_srt e fp out src dst s)) \<and>
    same_but_quota (run_state (translate_srt e fp out src dst s))
      (run_state (translate_srt e fp out src dst t))"
proof (cases "lower (splitext_ext fp) = ''.srt''")
  case False
  with assms show ?thesis by (simp add: translate_srt_def)
next
  case True
  show ?thesis
  proof (cases "pysrt_open e fp")
    case None
    with True assms show ?thesis by (simp add: translate_srt_def)
  next
    case (Some doc)
    obtain d s1 subs1 evs where
      ls: "translate_loop e src dst (length doc) 1 doc (s\<lparr>translated_count := 0\<rparr>) = (d, s1, subs1, evs)"
      by (metis prod_cases4)
    obtain d2 t1 subs2 evs2 where
      lt: "translate_loop e src dst (length doc) 1 doc (t\<lparr>translated_count := 0\<rparr>) = (d2, t1, subs2, evs2)"
      by (metis prod_cases4)
    have "same_but_quota (s\<lparr>translated_count := 0\<rparr>) (t\<lparr>translated_count := 0\<rparr>)"
      using assms by (simp add: same_but_quota_def)
    from same_but_quota_loop[OF this ls lt]
      translate_srt_opened[OF True Some ls, of out] translate_srt_opened[OF True Some lt, of out]
    show ?thesis by simp
  qed
qed

text \<open>
  C10: the quota ceiling is never enforced. In every reachable state \<^verbatim>\<open>get_quota\<close>
  returns the constant 500000 with the current \<open>used_quota\<close>; two runs from states that
  differ only in \<open>quota\<close> and \<open>used_quota\<close> end the same way, leave the same entries and
  produce the same events up to the numbers passed to the quota callback; and a run that
  nobody stops, started with the quota already used up, still posts the request of every
  entry and adds the translated characters to \<open>used_quota\<close>.
\<close>

theorem C10_quota_is_never_enforced:
  "(reachable s \<longrightarrow> get_quota s = (500000, used_quota s)) \<and>
   (same_but_quota s t \<longrightarrow>
      run_ending (translate_srt e fp out src dst t) = run_ending (translate_srt e fp out src dst s) \<and>
      run_subtitles (translate_srt e fp out src dst t) =
        run_subtitles (translate_srt e fp out src dst s) \<and>
      map forget_quota (run_events (translate_srt e fp out src dst t)) =
        map forget_quota (run_events (translate_srt e fp out src dst s)) \<and>
      same_but_quota (run_state (translate_srt e fp out src dst s))
        (run_state (translate_srt e fp out src dst t))) \<and>
   (quota s \<le> used_quota s \<and> lower (splitext_ext fp) = ''.srt'' \<and> pysrt_open e fp = Some doc \<and>
    \<not> should_stop s \<and> (\<forall>i. \<not> stop_pressed e i) \<longrightarrow>
      posts (run_events (translate_srt e fp out src dst s)) =
        map (form_data (deepl_api_key s) src dst) doc \<and>
      used_quota (run_state (translate_srt e fp out src dst s)) =
        used_quota s + sum_list (map characters (outcomes e (deepl_api_key s) src dst 1 doc)))"
proof -
  have a: "get_quota s = (500000, used_quota s)" if "reachable s"
    using reachable_quota[OF that] by (simp add: get_quota_def)
  have c: "posts (run_events (translate_srt e fp out src dst s)) =
        map (form_data (deepl_api_key s) src dst) doc \<and>
      used_quota (run_state (translate_srt e fp out src dst s)) =
        used_quota s + sum_list (map characters (outcomes e (deepl_api_key s) src dst 1 doc))"
    if h: "lower (splitext_ext fp) = ''.srt''" "pysrt_open e fp = Some doc"
      "\<not> should_stop s" "\<forall>i. \<not> stop_pressed e i"
  proof -
    have comp: "completed (translate_srt e fp out src dst s)"
      by (rule not_stopped_run[OF h])
    from completed_run[OF comp h(2)] obtain s1 subs1 evs where
      loop: "translate_loop e src dst (length doc) 1 doc (s\<lparr>translated_count := 0\<rparr>) =
               (True, s1, subs1, evs)" and
      r: "translate_srt e fp out src dst s =
         \<lparr>run_ending = Returned, run_state = s1, run_subtitles = subs1,
          run_events = Log (TotalSubtitles (length doc)) # evs @
            [Save out subs1, Log (FileSaved out), StatusCallback STATUS_TRANSLATION_COMPLETED]\<rparr>"
      by blast
    from translate_loop_done_posts[OF loop] translate_loop_done_quota[OF loop]
    show ?thesis by (simp add: r posts_append)
  qed
  from a same_but_quota_run c show ?thesis by blast
qed

text \<open>C10 on a fresh object and on the same object with the whole quota used.\<close>

theorem C10_quota_is_never_enforced_witness:
  "reachable fresh \<and> get_quota fresh = (500000, 0) \<and>
   same_but_quota over_limit fresh \<and> quota over_limit \<le> used_quota over_limit \<and>
   run_subtitles (translate_srt env_ok ''film.srt'' ''film.de.srt'' ''EN'' ''DE'' over_limit) =
     run_subtitles (translate_srt env_ok ''film.srt'' ''film.de.srt'' ''EN'' ''DE'' fresh) \<and>
   length (posts (run_events
     (translate_srt env_ok ''film.srt'' ''film.de.srt'' ''EN'' ''DE'' over_limit))) = 3 \<and>
   used_quota (run_state
     (translate_srt env_ok ''film.srt'' ''film.de.srt'' ''EN'' ''DE'' over_limit)) = 500020"
proof -
  have r: "reachable fresh"
    unfolding fresh_def by (rule reachable.init)
  have uq: "used_quota fresh = 0"
    by (simp add: fresh_def Translator_init_def)
  have same: "same_but_quota over_limit fresh"
    by (simp add: same_but_quota_def over_limit_def)
  have over: "quota over_limit \<le> used_quota over_limit"
    by (simp add: over_limit_def fresh_def Translator_init_def)
  have ns: "\<not> should_stop over_limit"
    by (simp add: over_limit_def fresh_def Translator_init_def)
  have np: "\<forall>i. \<not> stop_pressed env_ok i"
    by (simp add: env_ok_def)
  have key: "deepl_api_key over_limit = Some ''secret''"
    by (simp add: over_limit_def key_fresh)
  have base: "used_quota over_limit = 500000"
    by (simp add: over_limit_def)
  have len: "length doc3 = 3"
    by (simp add: doc3_def)
  from C10_quota_is_never_enforced[where s = fresh] r uq
  have one: "get_quota fresh = (500000, 0)"
    by simp
  from C10_quota_is_never_enforced[where s = over_limit and t = fresh and e = env_ok
      and fp = "''film.srt''" and out = "''film.de.srt''" and src = "''EN''" and dst = "''DE''"
      and doc = doc3]
    same over srt_film opened_ok ns np
  have two:
    "run_subtitles (translate_srt env_ok ''film.srt'' ''film.de.srt'' ''EN'' ''DE'' fresh) =
     run_subtitles (translate_srt env_ok ''film.srt'' ''film.de.srt'' ''EN'' ''DE'' over_limit)"
    "posts (run_events (translate_srt env_ok ''film.srt'' ''film.de.srt'' ''EN'' ''DE'' over_limit)) =
       map (form_data (deepl_api_key over_limit) ''EN'' ''DE'') doc3"
    "used_quota (run_state (translate_srt env_ok ''film.srt'' ''film.de.srt'' ''EN'' ''DE'' over_limit)) =
       used_quota over_limit +
       sum_list (map characters (outcomes env_ok (deepl_api_key over_limit) ''EN'' ''DE'' 1 doc3))"
    by simp_all
  from two(3) have "used_quota (run_state
     (translate_srt env_ok ''film.srt'' ''film.de.srt'' ''EN'' ''DE'' over_limit)) = 500020"
    by (simp add: key outcomes_ok base size_of_def)
  with r one same over two(1,2) len show ?thesis
    by simp
qed

end
